theory Spec2Isabelle
  imports Complex_Main "HOL-Library.Product_Lexorder" "HOL-Library.Monad_Syntax"
begin

section \<open>Values shared by the memory modules\<close>

text \<open>
  A JavaScript number is a \<open>number\<close>: a real, or \<open>NaN\<close> where a caller can pass it (the
  infinities are left out: the store keeps them as they are and \<open>memory_add\<close> rejects them
  as out of range).  The store, the tools and the surprise engine store, compare and pass
  on the numbers they are given, and their finite numbers are reals; the score of the
  retriever is a sum of products, and there every operation is rounded to a double.
  Integers that stamp time are \<open>int\<close>, and \<open>Date.now()\<close> is an explicit argument \<open>now\<close> of
  every function that reads the clock.

  A property of an argument object is a \<open>property\<close>, absent (\<open>undefined\<close>), \<open>null\<close> or
  given, where the code tells \<open>undefined\<close> from \<open>null\<close> (a destructuring default replaces
  \<open>undefined\<close> only); where it treats the two alike (\<open>??\<close>, \<open>!v\<close>, a default of \<open>null\<close>) it is an
  \<open>option\<close>.
\<close>

datatype json =
    JNull
  | JBool bool
  | JNum real
  | JStr string
  | JArr "json list"
  | JObj "(string \<times> json) list"

datatype number = Num real | NaN

datatype 'a property = Undefined | Null | Given 'a

text \<open>
  The errors of the memory modules.  \<open>store.js\<close> throws plain \<open>Error\<close> objects; the two
  messages ("Memory content and type are required", "Memory with ID ... not found") are
  the validation and the not-found error of the specification.  \<open>TypeError\<close> is what the
  runtime raises when a property of \<open>undefined\<close> or \<open>null\<close> is read.
\<close>

datatype error = ValidationError | NotFoundError | TypeError

section \<open>The memory store (src/memory/store.js)\<close>

subsection \<open>Rows and records\<close>

text \<open>
  The metadata of a memory is an object, "an opaque key to value mapping": a list of
  properties.  A JSON text is identified with the object it denotes, so that
  \<open>JSON.parse (JSON.stringify v)\<close> is \<open>v\<close>.
\<close>

type_synonym object = "(string \<times> json) list"

datatype json_text = JSON_text object

definition JSON_stringify :: "object \<Rightarrow> json_text" where
  "JSON_stringify v = JSON_text v"

fun JSON_parse :: "json_text \<Rightarrow> object" where
  "JSON_parse (JSON_text v) = v"

text \<open>
  Modelled from the spec: the table \<open>memories\<close> of the module \<open>../db\<close>, whose schema is
  not part of the sources.  A row has the fourteen columns the prepared statements of
  \<open>store.js\<close> name; the columns that \<open>toMemory\<close> reads with \<open>??\<close> may hold \<open>NULL\<close>.  The
  table is the list of its rows in insertion order, and a new row gets an id greater
  than every id in the table ("id: unique, assigned on creation").
\<close>

record row =
  col_id :: int
  col_session_id :: "string option"
  col_content :: string
  col_type :: string
  col_category :: "string option"
  col_importance :: "real option"
  col_surprise_score :: "real option"
  col_access_count :: "real option"
  col_decay_factor :: "real option"
  col_source_turn_id :: "int option"
  col_created_at :: int
  col_updated_at :: int
  col_last_accessed_at :: "int option"
  col_metadata :: "json_text option"

type_synonym db = "row list"

definition lastInsertRowid :: "db \<Rightarrow> int" where
  "lastInsertRowid rows = fold max (map col_id rows) 0 + 1"

text \<open>The object \<open>toMemory\<close> builds: what \<open>getMemory\<close>, \<open>updateMemory\<close> and the queries return.\<close>

record memory =
  mem_id :: int
  sessionId :: "string option"
  content :: string
  mem_type :: string
  category :: "string option"
  importance :: real
  surpriseScore :: real
  accessCount :: real
  decayFactor :: real
  sourceTurnId :: "int option"
  createdAt :: int
  updatedAt :: int
  lastAccessedAt :: "int option"
  metadata :: object

text \<open>
  The argument of \<open>createMemory\<close>.  The properties with a default other than \<open>null\<close>
  (importance, surprise score, access count, decay factor, metadata) are absent, \<open>null\<close>
  or given; a given one has the type of the Memory data model, a number (\<open>NaN\<close> included)
  or an object.  For the session, the category and the source turn, whose default is
  \<open>null\<close>, and for content and type, which are only tested with \<open>!\<close>, \<open>None\<close> is an absent
  or \<open>null\<close> property.
\<close>

record create_options =
  o_sessionId :: "string option"
  o_content :: "string option"
  o_type :: "string option"
  o_category :: "string option"
  o_importance :: "number property"
  o_surpriseScore :: "number property"
  o_accessCount :: "number property"
  o_decayFactor :: "number property"
  o_sourceTurnId :: "int option"
  o_metadata :: "object property"

text \<open>
  The object \<open>createMemory\<close> returns: the destructured values as they are, so a numeric
  property or the metadata may be \<open>null\<close> (\<open>None\<close>) and a number may be \<open>NaN\<close>.
\<close>

record created_memory =
  new_id :: int
  new_sessionId :: "string option"
  new_content :: string
  new_type :: string
  new_category :: "string option"
  new_importance :: "number option"
  new_surpriseScore :: "number option"
  new_accessCount :: "number option"
  new_decayFactor :: "number option"
  new_sourceTurnId :: "int option"
  new_createdAt :: int
  new_updatedAt :: int
  new_lastAccessedAt :: "int option"
  new_metadata :: "object option"

subsection \<open>Helpers\<close>

definition parseJSON :: "json_text option \<Rightarrow> object \<Rightarrow> object" where
  "parseJSON v fallback = (case v of None \<Rightarrow> fallback | Some t \<Rightarrow> JSON_parse t)"

definition serialize :: "object option \<Rightarrow> json_text option" where
  "serialize v = (case v of None \<Rightarrow> None | Some j \<Rightarrow> Some (JSON_stringify j))"

text \<open>\<open>a ?? b\<close>\<close>

definition nullish :: "'a option \<Rightarrow> 'a \<Rightarrow> 'a" where
  "nullish a b = (case a of None \<Rightarrow> b | Some v \<Rightarrow> v)"

definition toMemory :: "row \<Rightarrow> memory" where
  "toMemory r =
     \<lparr> mem_id = col_id r,
       sessionId = col_session_id r,
       content = col_content r,
       mem_type = col_type r,
       category = col_category r,
       importance = nullish (col_importance r) 0.5,
       surpriseScore = nullish (col_surprise_score r) 0.0,
       accessCount = nullish (col_access_count r) 0,
       decayFactor = nullish (col_decay_factor r) 1.0,
       sourceTurnId = col_source_turn_id r,
       createdAt = col_created_at r,
       updatedAt = col_updated_at r,
       lastAccessedAt = col_last_accessed_at r,
       metadata = parseJSON (col_metadata r) [] \<rparr>"

text \<open>\<open>!s\<close> for a string that may be absent: absent and empty strings are falsy.\<close>

definition falsy :: "string option \<Rightarrow> bool" where
  "falsy s = (case s of None \<Rightarrow> True | Some t \<Rightarrow> t = [])"

text \<open>
  A destructuring default, \<open>const { p = d } = options\<close>: the default replaces an absent
  property; \<open>null\<close> stays \<open>null\<close>.
\<close>

definition with_default :: "'a property \<Rightarrow> 'a \<Rightarrow> 'a option" where
  "with_default p d = (case p of Undefined \<Rightarrow> Some d | Null \<Rightarrow> None | Given v \<Rightarrow> Some v)"

text \<open>A number bound to a parameter of a statement: \<open>null\<close> and \<open>NaN\<close> are stored as \<open>NULL\<close>.\<close>

definition bind_number :: "number option \<Rightarrow> real option" where
  "bind_number n = (case n of Some (Num v) \<Rightarrow> Some v | _ \<Rightarrow> None)"

subsection \<open>Create, read, update\<close>

definition createMemory ::
  "int \<Rightarrow> create_options \<Rightarrow> db \<Rightarrow> error + (created_memory \<times> db)" where
  "createMemory now options rows =
     (let sessionId' = o_sessionId options;
          category' = o_category options;
          importance' = with_default (o_importance options) (Num 0.5);
          surpriseScore' = with_default (o_surpriseScore options) (Num 0.0);
          accessCount' = with_default (o_accessCount options) (Num 0);
          decayFactor' = with_default (o_decayFactor options) (Num 1.0);
          sourceTurnId' = o_sourceTurnId options;
          metadata' = with_default (o_metadata options) []
      in if falsy (o_content options) \<or> falsy (o_type options) then Inl ValidationError
         else
           (let content' = the (o_content options);
                type' = the (o_type options);
                rowid = lastInsertRowid rows;
                inserted =
                  \<lparr> col_id = rowid,
                    col_session_id = sessionId',
                    col_content = content',
                    col_type = type',
                    col_category = category',
                    col_importance = bind_number importance',
                    col_surprise_score = bind_number surpriseScore',
                    col_access_count = bind_number accessCount',
                    col_decay_factor = bind_number decayFactor',
                    col_source_turn_id = sourceTurnId',
                    col_created_at = now,
                    col_updated_at = now,
                    col_last_accessed_at = None,
                    col_metadata = serialize metadata' \<rparr>
            in Inr
                (\<lparr> new_id = rowid,
                   new_sessionId = sessionId',
                   new_content = content',
                   new_type = type',
                   new_category = category',
                   new_importance = importance',
                   new_surpriseScore = surpriseScore',
                   new_accessCount = accessCount',
                   new_decayFactor = decayFactor',
                   new_sourceTurnId = sourceTurnId',
                   new_createdAt = now,
                   new_updatedAt = now,
                   new_lastAccessedAt = None,
                   new_metadata = metadata' \<rparr>,
                 rows @ [inserted])))"

definition getMemory :: "int \<Rightarrow> db \<Rightarrow> memory option" where
  "getMemory i rows = map_option toMemory (find (\<lambda>r. col_id r = i) rows)"




subsection \<open>Queries\<close>

text \<open>\<open>LIMIT n\<close>: SQLite reads a negative limit as no limit.\<close>

definition sql_limit :: "int \<Rightarrow> 'a list \<Rightarrow> 'a list" where
  "sql_limit n xs = (if n < 0 then xs else take (nat n) xs)"

text \<open>
  \<open>WHERE (session_id = ? OR ? IS NULL)\<close>, both parameters bound to the same value: the
  comparison is true only between two equal non-null values.
\<close>

definition where_session :: "string option \<Rightarrow> row \<Rightarrow> bool" where
  "where_session sid r =
     ((case (col_session_id r, sid) of (Some a, Some b) \<Rightarrow> a = b | _ \<Rightarrow> False) \<or> sid = None)"

text \<open>
  \<open>ORDER BY\<close> keys, ascending in the key: a stable sort of the table on the key gives
  the statement's order, rows with equal keys staying in the order of the table (SQLite
  leaves their order open).  \<open>NULL\<close> is the smallest value of a column, so it comes last
  in a descending order.
\<close>

definition created_at_desc :: "row \<Rightarrow> int" where
  "created_at_desc r = - col_created_at r"

definition importance_desc_created_at_desc :: "row \<Rightarrow> (bool \<times> real) \<times> int" where
  "importance_desc_created_at_desc r =
     ((case col_importance r of None \<Rightarrow> (True, 0) | Some v \<Rightarrow> (False, - v)),
      - col_created_at r)"

record list_options =
  l_limit :: "int option"
  l_sessionId :: "string option"

definition getRecentMemoriesStmt :: "string option \<Rightarrow> int \<Rightarrow> db \<Rightarrow> row list" where
  "getRecentMemoriesStmt sid n rows =
     sql_limit n (sort_key created_at_desc (filter (where_session sid) rows))"

definition getRecentMemories :: "list_options \<Rightarrow> db \<Rightarrow> memory list" where
  "getRecentMemories options rows =
     (let limit = nullish (l_limit options) 10;
          sessionId' = l_sessionId options
      in map toMemory (getRecentMemoriesStmt sessionId' limit rows))"

text \<open>
  \<open>countMemories\<close> is declared without parameters: whatever a caller passes is dropped,
  and the statement has no \<open>WHERE\<close>.
\<close>

definition countMemoriesStmt :: "db \<Rightarrow> int" where
  "countMemoriesStmt rows = int (length rows)"

definition countMemories :: "db \<Rightarrow> int" where
  "countMemories rows = countMemoriesStmt rows"

subsection \<open>Pruning\<close>

text \<open>A \<open>DELETE ... WHERE p\<close>: the number of rows removed (\<open>changes\<close>) and the table left.\<close>

definition sql_delete :: "(row \<Rightarrow> bool) \<Rightarrow> db \<Rightarrow> int \<times> db" where
  "sql_delete p rows = (int (length (filter p rows)), filter (\<lambda>r. \<not> p r) rows)"

definition deleteMemory :: "int \<Rightarrow> db \<Rightarrow> bool \<times> db" where
  "deleteMemory i rows =
     (let (changes, rows') = sql_delete (\<lambda>r. col_id r = i) rows in (changes > 0, rows'))"

definition pruneOldMemories :: "int \<Rightarrow> int \<Rightarrow> db \<Rightarrow> int \<times> db" where
  "pruneOldMemories now olderThanMs rows =
     (let threshold = now - olderThanMs
      in sql_delete (\<lambda>r. col_created_at r < threshold) rows)"

definition pruneByCountStmt :: "int \<Rightarrow> db \<Rightarrow> int \<times> db" where
  "pruneByCountStmt n rows =
     sql_delete
       (\<lambda>r. col_id r \<notin> set (map col_id (sql_limit n (sort_key importance_desc_created_at_desc rows))))
       rows"

definition pruneByCount :: "int \<Rightarrow> db \<Rightarrow> int \<times> db" where
  "pruneByCount maxCount rows = pruneByCountStmt maxCount rows"

section \<open>The memory tools (src/memory/tools.js)\<close>

text \<open>
  A value a caller may pass for a property of the arguments: any JSON value, as a tool
  call delivers it, or \<open>NaN\<close>, which JSON cannot carry but a direct caller can pass.
\<close>

datatype js_value = JSNaN | JS json

text \<open>
  The arguments of \<open>memory_add\<close>.  A property is absent (\<open>None\<close>) or a value, \<open>null\<close> being
  the value \<open>JS JNull\<close>; the handler checks the ones it validates itself.  The category is
  not checked; it is absent, \<open>null\<close> or has the type the tool's input schema declares, a
  string.
\<close>

record add_args =
  a_content :: "js_value option"
  a_type :: "js_value option"
  a_category :: "string property"
  a_importance :: "js_value option"

text \<open>
  What a tool returns: \<open>content\<close> is the JSON value that the returned text denotes,
  \<open>metadata\<close> is absent on the error paths.
\<close>

record tool_result =
  ok :: bool
  res_content :: json
  res_metadata :: "json option"

fun typeof :: "js_value option \<Rightarrow> string" where
  "typeof None = ''undefined''"
| "typeof (Some JSNaN) = ''number''"
| "typeof (Some (JS JNull)) = ''object''"
| "typeof (Some (JS (JBool b))) = ''boolean''"
| "typeof (Some (JS (JNum n))) = ''number''"
| "typeof (Some (JS (JStr s))) = ''string''"
| "typeof (Some (JS (JArr xs))) = ''object''"
| "typeof (Some (JS (JObj kvs))) = ''object''"

text \<open>\<open>!!v\<close>\<close>

fun truthy :: "js_value option \<Rightarrow> bool" where
  "truthy None = False"
| "truthy (Some JSNaN) = False"
| "truthy (Some (JS JNull)) = False"
| "truthy (Some (JS (JBool b))) = b"
| "truthy (Some (JS (JNum n))) = (n \<noteq> 0)"
| "truthy (Some (JS (JStr s))) = (s \<noteq> [])"
| "truthy (Some (JS (JArr xs))) = True"
| "truthy (Some (JS (JObj kvs))) = True"

text \<open>
  \<open>v < 0 || v > 1\<close> for a value of type number, the only values the handler compares:
  both comparisons are false of \<open>NaN\<close>.
\<close>

fun outside_unit_interval :: "js_value \<Rightarrow> bool" where
  "outside_unit_interval (JS (JNum v)) = (v < 0 \<or> v > 1)"
| "outside_unit_interval _ = False"

text \<open>The number a value of type number is; other values do not reach \<open>createMemory\<close>.\<close>

fun as_number :: "js_value \<Rightarrow> number property" where
  "as_number JSNaN = Given NaN"
| "as_number (JS (JNum v)) = Given (Num v)"
| "as_number _ = Undefined"

fun as_string :: "js_value \<Rightarrow> string option" where
  "as_string (JS (JStr s)) = Some s"
| "as_string _ = None"

text \<open>
  A destructuring default for a property whose values include \<open>null\<close>: it replaces the
  absent property only.
\<close>

definition destructured :: "js_value option \<Rightarrow> js_value \<Rightarrow> js_value" where
  "destructured v d = (case v of None \<Rightarrow> d | Some u \<Rightarrow> u)"

definition memory_types :: "string list" where
  "memory_types = [''fact'', ''preference'', ''decision'', ''entity'', ''relationship'']"

definition error_message :: "error \<Rightarrow> string" where
  "error_message e =
     (case e of
        ValidationError \<Rightarrow> ''Memory content and type are required''
      | NotFoundError \<Rightarrow> ''Memory not found''
      | TypeError \<Rightarrow> ''Cannot read properties of null (reading 'session')'')"

definition tool_error :: "(string \<times> json) list \<Rightarrow> tool_result" where
  "tool_error kvs = \<lparr> ok = False, res_content = JObj kvs, res_metadata = None \<rparr>"

definition json_of_string_option :: "string option \<Rightarrow> json" where
  "json_of_string_option s = (case s of None \<Rightarrow> JNull | Some t \<Rightarrow> JStr t)"

text \<open>A number in a JSON text: \<open>JSON.stringify\<close> writes \<open>NaN\<close> as \<open>null\<close>.\<close>

definition json_of_number :: "number option \<Rightarrow> json" where
  "json_of_number n = (case n of Some (Num v) \<Rightarrow> JNum v | _ \<Rightarrow> JNull)"

text \<open>
  \<open>memory_add\<close>.  \<open>ts\<close> is the clock read for the metadata, \<open>now\<close> the one \<open>createMemory\<close>
  reads.  \<open>args\<close> is \<open>None\<close> when the caller passes \<open>undefined\<close> or \<open>null\<close>: the
  destructuring of the first statement then raises a \<open>TypeError\<close>, outside the \<open>try\<close>, and
  the promise the function returns is rejected (\<open>Inl\<close>).  The context is absent (the
  default \<open>{}\<close> applies), \<open>null\<close> (reading \<open>context.session\<close> raises a \<open>TypeError\<close>, inside the
  \<open>try\<close>) or an object, given by the value of \<open>context.session?.id\<close>.  The result is paired
  with the table the call leaves.
\<close>

definition memory_add ::
  "int \<Rightarrow> int \<Rightarrow> add_args option \<Rightarrow> string option property \<Rightarrow> db \<Rightarrow>
   error + (tool_result \<times> db)" where
  "memory_add ts now args context rows =
     (case args of
        None \<Rightarrow> Inl TypeError
      | Some a \<Rightarrow>
          Inr
           (let content' = a_content a;
                type' = destructured (a_type a) (JS (JStr ''fact''));
                category' = with_default (a_category a) ''general'';
                importance' = destructured (a_importance a) (JS (JNum 0.5))
            in if \<not> truthy content' \<or> typeof content' \<noteq> ''string''
               then (tool_error
                       [(''error'', JStr ''Content parameter is required and must be a string'')],
                     rows)
               else if type' \<notin> set (map (\<lambda>t. JS (JStr t)) memory_types)
               then (tool_error
                       [(''error'',
                         JStr ''Invalid type. Must be one of: fact, preference, decision, entity, relationship'')],
                     rows)
               else if typeof (Some importance') \<noteq> ''number'' \<or> outside_unit_interval importance'
               then (tool_error [(''error'', JStr ''Importance must be a number between 0 and 1'')],
                     rows)
               else
                 (case (case context of
                          Null \<Rightarrow> Inl TypeError
                        | Undefined \<Rightarrow> Inr None
                        | Given session_id \<Rightarrow> Inr session_id) of
                    Inl err \<Rightarrow>
                      (tool_error [(''error'', JStr ''Failed to add memory''),
                                   (''message'', JStr (error_message err))],
                       rows)
                  | Inr session_id \<Rightarrow>
                      (case createMemory now
                              \<lparr> o_sessionId = session_id,
                                o_content = Option.bind content' as_string,
                                o_type = as_string type',
                                o_category = category',
                                o_importance = as_number importance',
                                o_surpriseScore = Given (Num 0.5),
                                o_accessCount = Undefined,
                                o_decayFactor = Undefined,
                                o_sourceTurnId = None,
                                o_metadata =
                                  Given [(''manual'', JBool True), (''addedBy'', JStr ''user''),
                                         (''timestamp'', JNum (real_of_int ts))] \<rparr>
                              rows of
                         Inl err \<Rightarrow>
                           (tool_error [(''error'', JStr ''Failed to add memory''),
                                        (''message'', JStr (error_message err))],
                            rows)
                       | Inr (memory, rows') \<Rightarrow>
                           (\<lparr> ok = True,
                              res_content =
                                JObj [(''message'', JStr ''Memory stored successfully''),
                                      (''memoryId'', JNum (real_of_int (new_id memory))),
                                      (''memory'',
                                       JObj [(''id'', JNum (real_of_int (new_id memory))),
                                             (''type'', JStr (new_type memory)),
                                             (''content'', JStr (new_content memory)),
                                             (''importance'', json_of_number (new_importance memory)),
                                             (''category'', json_of_string_option (new_category memory))])],
                              res_metadata =
                                Some (JObj [(''memoryId'', JNum (real_of_int (new_id memory)))]) \<rparr>,
                            rows')))))"

section \<open>Double-precision arithmetic\<close>

text \<open>
  The numbers of the retriever are IEEE 754 doubles, and the result of an operation is
  the exact result rounded to the nearest double, ties to the even significand.
  \<open>round_double\<close> rounds a real with an unbounded exponent range above: a double of
  magnitude \<open>a\<close> is an integer multiple of \<open>ulp a\<close>, the weight \<open>2^(e-52)\<close> of the last of the
  53 bits of its significand, where \<open>e\<close> is the exponent of \<open>a\<close> and at least \<open>-1022\<close>
  (below that the doubles are subnormal and equally spaced).
\<close>

definition round_half_even :: "real \<Rightarrow> int" where
  "round_half_even y =
     (let f = \<lfloor>y\<rfloor>; d = y - of_int f
      in if d < 1 / 2 then f else if 1 / 2 < d then f + 1 else if even f then f else f + 1)"

definition binade :: "real \<Rightarrow> int" where
  "binade a = max \<lfloor>log 2 a\<rfloor> (- 1022)"

definition ulp :: "real \<Rightarrow> real" where
  "ulp a = 2 powr (of_int (binade a) - 52)"

definition round_magnitude :: "real \<Rightarrow> real" where
  "round_magnitude a = ulp a * of_int (round_half_even (a / ulp a))"

definition round_double :: "real \<Rightarrow> real" where
  "round_double x =
     (if x = 0 then 0
      else if 0 < x then round_magnitude x
      else - round_magnitude (- x))"

text \<open>
  The largest double.  An operation whose rounded result is larger in magnitude
  overflows to an infinity, and an operation on an infinity may give \<open>NaN\<close>: such a
  result is \<open>None\<close> here, and so is every result computed from it.
\<close>

definition max_double :: real where
  "max_double = (2 - 2 powr (- 52)) * 2 powr 1023"

definition finite_double :: "real \<Rightarrow> real option" where
  "finite_double x = (let r = round_double x in if \<bar>r\<bar> \<le> max_double then Some r else None)"

definition add_d :: "real \<Rightarrow> real \<Rightarrow> real option" where
  "add_d a b = finite_double (a + b)"

definition sub_d :: "real \<Rightarrow> real \<Rightarrow> real option" where
  "sub_d a b = finite_double (a - b)"

definition mul_d :: "real \<Rightarrow> real \<Rightarrow> real option" where
  "mul_d a b = finite_double (a * b)"

definition div_d :: "real \<Rightarrow> real \<Rightarrow> real option" where
  "div_d a b = finite_double (a / b)"

section \<open>The retriever (src/memory/retriever.js)\<close>

text \<open>
  \<open>search.extractKeywords\<close> lives in \<open>search.js\<close>, which is not part of the sources: the
  scoring functions take it as the parameter \<open>extractKeywords\<close>.
\<close>

record weights =
  recencyWeight :: real
  importanceWeight :: real
  relevanceWeight :: real

definition calculateKeywordOverlap ::
  "(string \<Rightarrow> string list) \<Rightarrow> string \<Rightarrow> string \<Rightarrow> real" where
  "calculateKeywordOverlap extractKeywords content' query =
     (let contentKeywords = set (extractKeywords content');
          queryKeywords = extractKeywords query
      in if length queryKeywords = 0 \<or> card contentKeywords = 0 then 0.0
         else
           (let overlapCount = length (filter (\<lambda>keyword. keyword \<in> contentKeywords) queryKeywords)
            in round_double (real overlapCount / real (length queryKeywords))))"

text \<open>\<open>a || b\<close> for a time stamp that may be absent: \<open>null\<close> and \<open>0\<close> are falsy.\<close>

definition or_else :: "int option \<Rightarrow> int \<Rightarrow> int" where
  "or_else a b = (case a of None \<Rightarrow> b | Some t \<Rightarrow> if t = 0 then b else t)"

text \<open>
  The memory passed to \<open>calculateRetrievalScore\<close> is a record of the store, whose importance
  is never absent, so \<open>memory.importance ?? 0.5\<close> is the importance.  \<open>Math.exp\<close> is left to
  the implementation by the language (an approximation of the exponential): it is the
  parameter \<open>Math_exp\<close>, \<open>None\<close> where its result is not finite.  The result is the score
  when it is a finite number, \<open>None\<close> when an operation overflows.
\<close>

definition calculateRetrievalScore ::
  "(real \<Rightarrow> real option) \<Rightarrow> (string \<Rightarrow> string list) \<Rightarrow> int \<Rightarrow> memory \<Rightarrow> string \<Rightarrow>
   weights \<Rightarrow> real option" where
  "calculateRetrievalScore Math_exp extractKeywords now memory query w =
     do {
       ageMs \<leftarrow> sub_d (of_int now) (of_int (or_else (lastAccessedAt memory) (createdAt memory)));
       let halfLifeMs = 7 * 24 * 60 * 60 * 1000;
       exponent \<leftarrow> div_d (- ageMs) halfLifeMs;
       recencyScore \<leftarrow> Math_exp exponent;
       let importanceScore = importance memory;
       let relevanceScore = calculateKeywordOverlap extractKeywords (content memory) query;
       recencyTerm \<leftarrow> mul_d (recencyWeight w) recencyScore;
       importanceTerm \<leftarrow> mul_d (importanceWeight w) importanceScore;
       partial \<leftarrow> add_d recencyTerm importanceTerm;
       relevanceTerm \<leftarrow> mul_d (relevanceWeight w) relevanceScore;
       add_d partial relevanceTerm
     }"

text \<open>
  An exponential function for the examples: the exact exponential, correctly rounded.
\<close>

definition exp_nearest :: "real \<Rightarrow> real option" where
  "exp_nearest x = finite_double (exp x)"

section \<open>The surprise engine (surprise.js)\<close>

text \<open>
  The sources hold two revisions of \<open>surprise.js\<close> with the same \<open>calculateSurprise\<close>,
  \<open>detectEmphasis\<close>, \<open>measureContextSwitch\<close>, \<open>extractSimpleEntities\<close> and \<open>extractKeywords\<close>.
  This section follows the later one: its \<open>detectContradiction\<close> has the table of opposite
  terms and the preference test, its \<open>measureSpecificity\<close> counts acronyms and adds the
  length bonus, and its \<open>calculateNovelty\<close> damps an average of one half or less.
\<close>

subsection \<open>Strings and regular expressions\<close>

text \<open>
  A string is the list of its UTF-16 code units, so that \<open>length\<close>, \<open>includes\<close> and the
  character classes of the patterns are the ones of the runtime.  \<open>toLowerCase\<close> follows
  the Unicode case tables; the functions that call it take it as the parameter
  \<open>toLowerCase\<close>, and \<open>ascii_toLowerCase\<close> is what it does on ASCII text.

  A pattern is a value of type \<open>rx\<close>.  \<open>rx_match ci r (p, s)\<close> lists, in the order a
  backtracking matcher tries them, the ways \<open>r\<close> can match a prefix of \<open>s\<close> when \<open>p\<close> is
  the code unit before \<open>s\<close>: each way is the last code unit consumed and the rest of the
  text.  \<open>ci\<close> is the flag \<open>i\<close>.  Quantifiers are greedy, and an iteration of a star that
  consumes nothing is dropped.
\<close>

type_synonym code_unit = int
type_synonym jsstring = "code_unit list"

definition str :: "string \<Rightarrow> jsstring" where
  "str s = map of_char s"

definition ascii_lower :: "code_unit \<Rightarrow> code_unit" where
  "ascii_lower c = (if 65 \<le> c \<and> c \<le> 90 then c + 32 else c)"

definition ascii_upper :: "code_unit \<Rightarrow> code_unit" where
  "ascii_upper c = (if 97 \<le> c \<and> c \<le> 122 then c - 32 else c)"

definition ascii_toLowerCase :: "jsstring \<Rightarrow> jsstring" where
  "ascii_toLowerCase s = map ascii_lower s"

text \<open>A character class is a list of ranges of code units.\<close>

type_synonym char_class = "(code_unit \<times> code_unit) list"

definition chars :: "char \<Rightarrow> char \<Rightarrow> code_unit \<times> code_unit" where
  "chars lo hi = (of_char lo, of_char hi)"

definition single :: "char \<Rightarrow> code_unit \<times> code_unit" where
  "single c = (of_char c, of_char c)"

datatype rx =
    Cls char_class
  | NCls char_class
  | Lit jsstring
  | Seq rx rx
  | Alt rx rx
  | Star rx
  | Plus rx
  | Opt rx
  | WordB

text \<open>
  Under the flag \<open>i\<close> a code unit matches a class when it or its other ASCII case is in
  the class: the patterns of \<open>surprise.js\<close> are ASCII, and no code unit outside ASCII
  folds to an ASCII letter.
\<close>

definition in_ranges :: "char_class \<Rightarrow> code_unit \<Rightarrow> bool" where
  "in_ranges rs c = list_ex (\<lambda>(lo, hi). lo \<le> c \<and> c \<le> hi) rs"

definition cls_match :: "bool \<Rightarrow> char_class \<Rightarrow> code_unit \<Rightarrow> bool" where
  "cls_match ci rs c =
     (in_ranges rs c \<or> (ci \<and> (in_ranges rs (ascii_lower c) \<or> in_ranges rs (ascii_upper c))))"

text \<open>\<open>\w\<close> and \<open>\s\<close>\<close>

definition word_chars :: char_class where
  "word_chars =
     [chars CHR ''A'' CHR ''Z'', chars CHR ''a'' CHR ''z'', chars CHR ''0'' CHR ''9'',
      single CHR ''_'']"

definition is_word :: "code_unit \<Rightarrow> bool" where
  "is_word c = in_ranges word_chars c"

definition is_space :: "code_unit \<Rightarrow> bool" where
  "is_space c =
     ((9 \<le> c \<and> c \<le> 13) \<or> c = 32 \<or> c = 160 \<or> c = 5760 \<or> (8192 \<le> c \<and> c \<le> 8202) \<or>
      c = 8232 \<or> c = 8233 \<or> c = 8239 \<or> c = 8287 \<or> c = 12288 \<or> c = 65279)"

type_synonym mstate = "code_unit option \<times> jsstring"

text \<open>
  The iterations of a star: \<open>star_run n f st\<close> tries \<open>f\<close> again from every way \<open>f\<close> can
  consume something, at most \<open>n\<close> times in a row, and the way that stops here comes
  last.  It is called with \<open>n\<close> the length of the text left, which no sequence of
  consuming iterations exceeds.
\<close>

fun star_run :: "nat \<Rightarrow> (mstate \<Rightarrow> mstate list) \<Rightarrow> mstate \<Rightarrow> mstate list" where
  "star_run 0 f st = [st]"
| "star_run (Suc n) f st =
     concat (map (star_run n f) (filter (\<lambda>st'. length (snd st') < length (snd st)) (f st))) @ [st]"

fun lit_match :: "bool \<Rightarrow> jsstring \<Rightarrow> mstate \<Rightarrow> mstate list" where
  "lit_match ci [] st = [st]"
| "lit_match ci (l # ls) (p, []) = []"
| "lit_match ci (l # ls) (p, c # cs) =
     (if cls_match ci [(l, l)] c then lit_match ci ls (Some c, cs) else [])"

fun rx_match :: "bool \<Rightarrow> rx \<Rightarrow> mstate \<Rightarrow> mstate list" where
  "rx_match ci (Cls rs) (p, s) =
     (case s of [] \<Rightarrow> [] | c # cs \<Rightarrow> if cls_match ci rs c then [(Some c, cs)] else [])"
| "rx_match ci (NCls rs) (p, s) =
     (case s of [] \<Rightarrow> [] | c # cs \<Rightarrow> if cls_match ci rs c then [] else [(Some c, cs)])"
| "rx_match ci (Lit l) st = lit_match ci l st"
| "rx_match ci (Seq a b) st = concat (map (rx_match ci b) (rx_match ci a st))"
| "rx_match ci (Alt a b) st = rx_match ci a st @ rx_match ci b st"
| "rx_match ci (Star a) st = star_run (length (snd st)) (rx_match ci a) st"
| "rx_match ci (Plus a) st =
     concat (map (\<lambda>st'. star_run (length (snd st')) (rx_match ci a) st') (rx_match ci a st))"
| "rx_match ci (Opt a) st = rx_match ci a st @ [st]"
| "rx_match ci WordB (p, s) =
     (if (case p of None \<Rightarrow> False | Some c \<Rightarrow> is_word c) \<noteq>
         (case s of [] \<Rightarrow> False | c # _ \<Rightarrow> is_word c)
      then [(p, s)] else [])"

text \<open>
  \<open>RegExp.test\<close>: some position of the text has a match.  \<open>String.match\<close> with the flag
  \<open>g\<close>: the matches from left to right, each the first way found at the leftmost
  position after the previous match; after an empty match the search moves on by one
  code unit.
\<close>

fun rx_test_from :: "bool \<Rightarrow> rx \<Rightarrow> code_unit option \<Rightarrow> jsstring \<Rightarrow> bool" where
  "rx_test_from ci r p [] = (rx_match ci r (p, []) \<noteq> [])"
| "rx_test_from ci r p (c # cs) =
     (rx_match ci r (p, c # cs) \<noteq> [] \<or> rx_test_from ci r (Some c) cs)"

definition rx_test :: "bool \<Rightarrow> rx \<Rightarrow> jsstring \<Rightarrow> bool" where
  "rx_test ci r s = rx_test_from ci r None s"

fun rx_match_all_from :: "bool \<Rightarrow> rx \<Rightarrow> code_unit option \<Rightarrow> jsstring \<Rightarrow> jsstring list" where
  "rx_match_all_from ci r p [] = (case rx_match ci r (p, []) of [] \<Rightarrow> [] | _ \<Rightarrow> [[]])"
| "rx_match_all_from ci r p (c # cs) =
     (case rx_match ci r (p, c # cs) of
        [] \<Rightarrow> rx_match_all_from ci r (Some c) cs
      | (p', rest) # _ \<Rightarrow>
          if length rest < length (c # cs)
          then take (length (c # cs) - length rest) (c # cs) # rx_match_all_from ci r p' rest
          else [] # rx_match_all_from ci r (Some c) cs)"

definition rx_match_all :: "bool \<Rightarrow> rx \<Rightarrow> jsstring \<Rightarrow> jsstring list" where
  "rx_match_all ci r s = rx_match_all_from ci r None s"

text \<open>
  Shorthands to write the patterns: a sequence, an alternation, and \<open>r{0,n}\<close>.
\<close>

fun cat :: "rx list \<Rightarrow> rx" where
  "cat [] = Lit []"
| "cat [r] = r"
| "cat (r # rs) = Seq r (cat rs)"

fun alts :: "rx list \<Rightarrow> rx" where
  "alts [] = Cls []"
| "alts [r] = r"
| "alts (r # rs) = Alt r (alts rs)"

fun upto_times :: "nat \<Rightarrow> rx \<Rightarrow> rx" where
  "upto_times 0 r = Lit []"
| "upto_times (Suc n) r = Opt (Seq r (upto_times n r))"

text \<open>
  \<open>String.includes\<close>, and \<open>split(/\s+/)\<close>: the pieces between the maximal runs of white
  space, with an empty piece before a leading and after a trailing run, so that the empty
  string has the single piece \<open>""\<close>.
\<close>

fun js_includes :: "jsstring \<Rightarrow> jsstring \<Rightarrow> bool" where
  "js_includes [] sub = (sub = [])"
| "js_includes (c # cs) sub = (take (length sub) (c # cs) = sub \<or> js_includes cs sub)"

fun split_ws_from :: "bool \<Rightarrow> jsstring \<Rightarrow> jsstring \<Rightarrow> jsstring list" where
  "split_ws_from insep acc [] = [rev acc]"
| "split_ws_from insep acc (c # cs) =
     (if is_space c
      then (if insep then split_ws_from True [] cs else rev acc # split_ws_from True [] cs)
      else split_ws_from False (c # acc) cs)"

definition split_ws :: "jsstring \<Rightarrow> jsstring list" where
  "split_ws s = split_ws_from False [] s"


subsection \<open>The patterns of surprise.js\<close>

definition upper :: char_class where
  "upper = [chars CHR ''A'' CHR ''Z'']"

definition lower :: char_class where
  "lower = [chars CHR ''a'' CHR ''z'']"

definition digit :: char_class where
  "digit = [chars CHR ''0'' CHR ''9'']"

definition lit :: "string \<Rightarrow> rx" where
  "lit s = Lit (str s)"

text \<open>\<open>/\b(not|no|never|don't|doesn't|didn't|isn't|aren't|wasn't|weren't)\b/\<close>\<close>

definition rx_negation :: rx where
  "rx_negation =
     cat [WordB,
          alts (map lit [''not'', ''no'', ''never'', ''don't'', ''doesn't'', ''didn't'', ''isn't'',
                         ''aren't'', ''wasn't'', ''weren't'']),
          WordB]"

text \<open>\<open>/\b(not|no|never|don't|doesn't)\b/\<close>\<close>

definition rx_mem_negation :: rx where
  "rx_mem_negation =
     cat [WordB, alts (map lit [''not'', ''no'', ''never'', ''don't'', ''doesn't'']), WordB]"

text \<open>
  \<open>/instead of/i\<close>, \<open>/rather than/i\<close>, \<open>/\bover\b/i\<close>, \<open>/actually/i\<close>, \<open>/correction/i\<close>,
  \<open>/changed? (?:from|to)/i\<close>, \<open>/replaced/i\<close>, \<open>/no longer/i\<close>
\<close>

definition contradictoryPhrases :: "rx list" where
  "contradictoryPhrases =
     [lit ''instead of'',
      lit ''rather than'',
      cat [WordB, lit ''over'', WordB],
      lit ''actually'',
      lit ''correction'',
      cat [lit ''change'', Opt (lit ''d''), lit '' '', Alt (lit ''from'') (lit ''to'')],
      lit ''replaced'',
      lit ''no longer'']"

text \<open>\<open>/\b(prefers?|likes?|favou?rs?|chooses?)\b/\<close>\<close>

definition rx_preference :: rx where
  "rx_preference =
     cat [WordB,
          alts [cat [lit ''prefer'', Opt (lit ''s'')],
                cat [lit ''like'', Opt (lit ''s'')],
                cat [lit ''favo'', Opt (lit ''u''), lit ''r'', Opt (lit ''s'')],
                cat [lit ''choose'', Opt (lit ''s'')]],
          WordB]"

definition oppositeTerms :: "(string \<times> string) list" where
  "oppositeTerms =
     [(''dark'', ''light''), (''enable'', ''disable''), (''on'', ''off''), (''yes'', ''no''),
      (''true'', ''false''), (''allow'', ''deny''), (''always'', ''never''), (''more'', ''less''),
      (''increase'', ''decrease''), (''start'', ''stop'')]"

text \<open>\<open>/\b[A-Z][a-z]+\b/g\<close>\<close>

definition rx_entity_proper :: rx where
  "rx_entity_proper = cat [WordB, Cls upper, Plus (Cls lower), WordB]"

text \<open>\<open>/\b[a-z_][a-z0-9_]*\b/gi\<close>\<close>

definition rx_entity_code :: rx where
  "rx_entity_code =
     cat [WordB, Cls (lower @ [single CHR ''_'']),
          Star (Cls (lower @ digit @ [single CHR ''_''])), WordB]"

text \<open>\<open>/[a-z0-9_-]+\.[a-z]{2,4}/gi\<close>\<close>

definition rx_entity_file :: rx where
  "rx_entity_file =
     cat [Plus (Cls (lower @ digit @ [single CHR ''_'', single CHR ''-''])), lit ''.'',
          Cls lower, Cls lower, upto_times 2 (Cls lower)]"

text \<open>\<open>/\b[A-Z][a-z]+(?:[A-Z][a-z]+)*\b/g\<close>\<close>

definition rx_proper_nouns :: rx where
  "rx_proper_nouns =
     cat [WordB, Cls upper, Plus (Cls lower), Star (Seq (Cls upper) (Plus (Cls lower))), WordB]"

text \<open>\<open>/\b[A-Z]{2,}\d*\b/g\<close>\<close>

definition rx_acronyms :: rx where
  "rx_acronyms = cat [WordB, Cls upper, Plus (Cls upper), Star (Cls digit), WordB]"

text \<open>\<open>/\b\d+(?:\.\d+)?(?:-\w+)?\b/g\<close>\<close>

definition rx_numbers :: rx where
  "rx_numbers =
     cat [WordB, Plus (Cls digit), Opt (Seq (lit ''.'') (Plus (Cls digit))),
          Opt (Seq (lit ''-'') (Plus (Cls word_chars))), WordB]"

text \<open>\<open>/`[^`]+`|[A-Za-z0-9_]+\.[A-Za-z0-9_]+/g\<close>\<close>

definition rx_code_refs :: rx where
  "rx_code_refs =
     Alt (cat [lit [CHR 0x60], Plus (NCls [single (CHR 0x60)]), lit [CHR 0x60]])
         (cat [Plus (Cls word_chars), lit ''.'', Plus (Cls word_chars)])"

text \<open>\<open>/\b[a-z]+[A-Z][a-zA-Z]*\b|\b[a-z]+_[a-z_]+\b/g\<close>\<close>

definition rx_technical_terms :: rx where
  "rx_technical_terms =
     Alt (cat [WordB, Plus (Cls lower), Cls upper, Star (Cls (lower @ upper)), WordB])
         (cat [WordB, Plus (Cls lower), lit ''_'', Plus (Cls (lower @ [single CHR ''_''])), WordB])"

text \<open>\<open>/!/g\<close> and \<open>/\b[A-Z]{2,}\b/g\<close>\<close>

definition rx_exclamation :: rx where
  "rx_exclamation = lit ''!''"

definition rx_caps_words :: rx where
  "rx_caps_words = cat [WordB, Cls upper, Plus (Cls upper), WordB]"

subsection \<open>Entities and keywords\<close>

text \<open>\<open>Set.add\<close> on a set kept in insertion order.\<close>

definition set_add :: "'a list \<Rightarrow> 'a \<Rightarrow> 'a list" where
  "set_add xs x = (if x \<in> set xs then xs else xs @ [x])"

definition extractSimpleEntities :: "jsstring \<Rightarrow> jsstring list" where
  "extractSimpleEntities text =
     (let properNouns = rx_match_all False rx_entity_proper text;
          entities1 = fold (\<lambda>e es. set_add es e) properNouns [];
          codeIds = rx_match_all True rx_entity_code text;
          entities2 = fold (\<lambda>e es. if length e \<ge> 4 \<and> length e \<le> 50 then set_add es e else es)
                        codeIds entities1;
          files = rx_match_all True rx_entity_file text
      in fold (\<lambda>e es. set_add es e) files entities2)"

definition stopwords :: "string list" where
  "stopwords =
     [''the'', ''is'', ''at'', ''which'', ''on'', ''and'', ''or'', ''not'', ''this'', ''that'',
      ''with'', ''from'', ''for'', ''to'', ''in'', ''of'', ''a'', ''an'', ''are'', ''was'', ''were'',
      ''be'', ''been'', ''being'', ''have'', ''has'', ''had'', ''do'', ''does'', ''did'', ''will'',
      ''would'', ''should'', ''could'', ''may'', ''might'', ''must'', ''can'', ''it'', ''its'']"

definition extractKeywords :: "(jsstring \<Rightarrow> jsstring) \<Rightarrow> jsstring \<Rightarrow> jsstring list" where
  "extractKeywords toLowerCase text =
     filter (\<lambda>word. length word > 3 \<and> word \<notin> set (map str stopwords))
       (map (\<lambda>word. filter is_word word) (split_ws (toLowerCase text)))"


subsection \<open>The five factors\<close>

text \<open>
  A memory as the surprise engine reads it.  \<open>None\<close> is a property that is absent: calling
  a string method on it raises a \<open>TypeError\<close>, which the functions below return as \<open>None\<close>.
\<close>

record surprise_memory =
  sm_content :: "jsstring option"
  sm_createdAt :: "int option"

record surprise_context =
  userContent :: "jsstring option"

text \<open>\<open>existingMemories.some(mem => mem.content.toLowerCase().includes(e.toLowerCase()))\<close>\<close>

fun some_includes ::
  "(jsstring \<Rightarrow> jsstring) \<Rightarrow> surprise_memory list \<Rightarrow> jsstring \<Rightarrow> bool option" where
  "some_includes toLowerCase [] e = Some False"
| "some_includes toLowerCase (mem # mems) e =
     (case sm_content mem of
        None \<Rightarrow> None
      | Some c \<Rightarrow>
          if js_includes (toLowerCase c) (toLowerCase e) then Some True
          else some_includes toLowerCase mems e)"

fun count_novel ::
  "(jsstring \<Rightarrow> jsstring) \<Rightarrow> surprise_memory list \<Rightarrow> jsstring list \<Rightarrow> nat option" where
  "count_novel toLowerCase existing [] = Some 0"
| "count_novel toLowerCase existing (e # es) =
     (case some_includes toLowerCase existing e of
        None \<Rightarrow> None
      | Some found \<Rightarrow>
          (case count_novel toLowerCase existing es of
             None \<Rightarrow> None
           | Some n \<Rightarrow> Some (if found then n else n + 1)))"

definition calculateNovelty ::
  "(jsstring \<Rightarrow> jsstring) \<Rightarrow> surprise_memory \<Rightarrow> surprise_memory list option \<Rightarrow> real option" where
  "calculateNovelty toLowerCase newMemory existingMemories =
     (case existingMemories of
        None \<Rightarrow> Some 1.0
      | Some [] \<Rightarrow> Some 1.0
      | Some existing \<Rightarrow>
          (case sm_content newMemory of
             None \<Rightarrow> None
           | Some c \<Rightarrow>
               (let newEntities = extractSimpleEntities c;
                    newKeywords = extractKeywords toLowerCase c
                in case count_novel toLowerCase existing newEntities of
                     None \<Rightarrow> None
                   | Some novelEntityCount \<Rightarrow>
                       (let entityNovelty =
                              (if length newEntities > 0
                               then real novelEntityCount / real (length newEntities)
                               else 0.5)
                        in case count_novel toLowerCase existing newKeywords of
                             None \<Rightarrow> None
                           | Some novelKeywordCount \<Rightarrow>
                               (let keywordNovelty =
                                      (if length newKeywords > 0
                                       then real novelKeywordCount / real (length newKeywords)
                                       else 0.5);
                                    avgNovelty = (entityNovelty + keywordNovelty) / 2
                                in Some (if avgNovelty \<le> 0.5 then min 0.49 (avgNovelty * 0.95)
                                         else avgNovelty))))))"

fun contradiction_loop ::
  "(jsstring \<Rightarrow> jsstring) \<Rightarrow> jsstring \<Rightarrow> bool \<Rightarrow> bool \<Rightarrow> jsstring list \<Rightarrow>
   surprise_memory list \<Rightarrow> real \<Rightarrow> real option" where
  "contradiction_loop toLowerCase newLower hasNegation hasContradictoryPhrase newEntities []
     contradictionScore = Some contradictionScore"
| "contradiction_loop toLowerCase newLower hasNegation hasContradictoryPhrase newEntities
     (mem # mems) contradictionScore =
     (case sm_content mem of
        None \<Rightarrow> None
      | Some c \<Rightarrow>
          (let memEntities = extractSimpleEntities c;
               sharedEntities =
                 filter (\<lambda>e. list_ex (\<lambda>me. toLowerCase me = toLowerCase e) memEntities) newEntities;
               memLower = toLowerCase c;
               bothAboutPreferences =
                 (rx_test False rx_preference newLower \<and> rx_test False rx_preference memLower);
               hasOppositeTerms =
                 list_ex (\<lambda>(term1, term2).
                     (js_includes newLower (str term1) \<and> js_includes memLower (str term2)) \<or>
                     (js_includes newLower (str term2) \<and> js_includes memLower (str term1)))
                   oppositeTerms
           in if length sharedEntities = 0 \<and> \<not> bothAboutPreferences \<and> \<not> hasOppositeTerms
              then contradiction_loop toLowerCase newLower hasNegation hasContradictoryPhrase
                     newEntities mems contradictionScore
              else
                (let memHasNegation = rx_test False rx_mem_negation memLower;
                     score1 = (if hasNegation \<noteq> memHasNegation then max contradictionScore 0.8
                               else contradictionScore);
                     score2 = (if hasOppositeTerms \<and> bothAboutPreferences then max score1 0.6
                               else score1);
                     score3 = (if hasContradictoryPhrase \<and>
                                  (length sharedEntities > 0 \<or> bothAboutPreferences)
                               then max score2 0.7 else score2)
                 in contradiction_loop toLowerCase newLower hasNegation hasContradictoryPhrase
                      newEntities mems score3)))"

definition detectContradiction ::
  "(jsstring \<Rightarrow> jsstring) \<Rightarrow> surprise_memory \<Rightarrow> surprise_memory list option \<Rightarrow> real option" where
  "detectContradiction toLowerCase newMemory existingMemories =
     (case existingMemories of
        None \<Rightarrow> Some 0.0
      | Some [] \<Rightarrow> Some 0.0
      | Some existing \<Rightarrow>
          (case sm_content newMemory of
             None \<Rightarrow> None
           | Some c \<Rightarrow>
               (let newLower = toLowerCase c;
                    hasNegation = rx_test False rx_negation newLower;
                    hasContradictoryPhrase = list_ex (\<lambda>pattern. rx_test True pattern c) contradictoryPhrases;
                    newEntities = extractSimpleEntities c
                in contradiction_loop toLowerCase newLower hasNegation hasContradictoryPhrase
                     newEntities existing 0.0)))"

definition measureSpecificity :: "jsstring \<Rightarrow> real" where
  "measureSpecificity content' =
     (let properNouns = rx_match_all False rx_proper_nouns content';
          acronyms = rx_match_all False rx_acronyms content';
          totalEntities = length properNouns + length acronyms;
          score1 = 0.0 + min 0.5 (real totalEntities * 0.15);
          numbers = rx_match_all False rx_numbers content';
          score2 = score1 + min 0.35 (real (length numbers) * 0.15);
          codeRefs = rx_match_all False rx_code_refs content';
          score3 = score2 + min 0.4 (real (length codeRefs) * 0.2);
          technicalTerms = rx_match_all False rx_technical_terms content';
          score4 = score3 + min 0.3 (real (length technicalTerms) * 0.15);
          wordCount = length (split_ws content');
          score5 = (if wordCount > 10 then score4 + 0.15 else score4);
          score6 = (if wordCount > 18 then score5 + 0.15 else score5)
      in min 1.0 score6)"

definition emphasisKeywords :: "string list" where
  "emphasisKeywords =
     [''important'', ''critical'', ''crucial'', ''essential'', ''must'', ''need to'', ''remember'',
      ''note that'', ''pay attention'', ''make sure'']"

text \<open>The loop that looks for a word followed by itself.\<close>

fun has_repetition :: "jsstring list \<Rightarrow> bool" where
  "has_repetition (w1 # w2 # ws) = (w1 = w2 \<or> has_repetition (w2 # ws))"
| "has_repetition _ = False"

definition detectEmphasis :: "(jsstring \<Rightarrow> jsstring) \<Rightarrow> jsstring \<Rightarrow> real" where
  "detectEmphasis toLowerCase userContent' =
     (if userContent' = [] then 0.0
      else
        (let lower' = toLowerCase userContent';
             score1 = 0.0 + 0.2 * real (length (filter (\<lambda>keyword. js_includes lower' (str keyword))
                                                   emphasisKeywords));
             exclamations = length (rx_match_all False rx_exclamation userContent');
             score2 = score1 + min 0.3 (real exclamations * 0.15);
             capsWords = rx_match_all False rx_caps_words userContent';
             score3 = score2 + min 0.2 (real (length capsWords) * 0.1);
             words = split_ws lower';
             score4 = (if has_repetition words then score3 + 0.15 else score3)
         in min 1.0 score4))"

text \<open>The keywords of the memories of a list, \<open>None\<close> when one has no content.\<close>

fun keywords_of ::
  "(jsstring \<Rightarrow> jsstring) \<Rightarrow> surprise_memory list \<Rightarrow> jsstring list option" where
  "keywords_of toLowerCase [] = Some []"
| "keywords_of toLowerCase (mem # mems) =
     (case sm_content mem of
        None \<Rightarrow> None
      | Some c \<Rightarrow>
          (case keywords_of toLowerCase mems of
             None \<Rightarrow> None
           | Some ks \<Rightarrow> Some (extractKeywords toLowerCase c @ ks)))"

definition measureContextSwitch ::
  "(jsstring \<Rightarrow> jsstring) \<Rightarrow> surprise_memory \<Rightarrow> surprise_memory list option \<Rightarrow> real option" where
  "measureContextSwitch toLowerCase newMemory existingMemories =
     (case existingMemories of
        None \<Rightarrow> Some 0.0
      | Some [] \<Rightarrow> Some 0.0
      | Some existing \<Rightarrow>
          (let recentMemories =
                 take 5 (sort_key (\<lambda>m. - (case sm_createdAt m of None \<Rightarrow> 0 | Some t \<Rightarrow> t)) existing)
           in if length recentMemories = 0 then Some 0.0
              else
                (case sm_content newMemory of
                   None \<Rightarrow> None
                 | Some c \<Rightarrow>
                     (let newKeywords = extractKeywords toLowerCase c
                      in case keywords_of toLowerCase recentMemories of
                           None \<Rightarrow> None
                         | Some recentKeywords \<Rightarrow>
                             (let overlappingKeywords =
                                    filter (\<lambda>k. k \<in> set recentKeywords) newKeywords;
                                  overlapRatio =
                                    (if length newKeywords > 0
                                     then real (length overlappingKeywords) / real (length newKeywords)
                                     else 0)
                              in Some (1.0 - overlapRatio))))))"

subsection \<open>The score\<close>

text \<open>The body of the \<open>try\<close> block: \<open>None\<close> when one of the factors raises.\<close>

definition calculateSurprise_try ::
  "(jsstring \<Rightarrow> jsstring) \<Rightarrow> surprise_memory \<Rightarrow> surprise_memory list option \<Rightarrow>
   surprise_context option \<Rightarrow> real option" where
  "calculateSurprise_try toLowerCase newMemory existingMemories context =
     (case calculateNovelty toLowerCase newMemory existingMemories of
        None \<Rightarrow> None
      | Some noveltyScore \<Rightarrow>
     (case detectContradiction toLowerCase newMemory existingMemories of
        None \<Rightarrow> None
      | Some contradictionScore \<Rightarrow>
     (case sm_content newMemory of
        None \<Rightarrow> None
      | Some c \<Rightarrow>
     (let specificityScore = measureSpecificity c;
          emphasisScore =
            detectEmphasis toLowerCase
              (case context of
                 None \<Rightarrow> []
               | Some ctx \<Rightarrow> (case userContent ctx of None \<Rightarrow> [] | Some u \<Rightarrow> u))
      in case measureContextSwitch toLowerCase newMemory existingMemories of
           None \<Rightarrow> None
         | Some contextSwitchScore \<Rightarrow>
             (let surprise = 0.0 + noveltyScore * 0.30 + contradictionScore * 0.40 +
                             specificityScore * 0.15 + emphasisScore * 0.10 +
                             contextSwitchScore * 0.05
              in Some (min 1.0 (max 0.0 surprise)))))))"

definition calculateSurprise ::
  "(jsstring \<Rightarrow> jsstring) \<Rightarrow> surprise_memory \<Rightarrow> surprise_memory list option \<Rightarrow>
   surprise_context option \<Rightarrow> real" where
  "calculateSurprise toLowerCase newMemory existingMemories context =
     (case calculateSurprise_try toLowerCase newMemory existingMemories context of
        None \<Rightarrow> 0.5
      | Some surprise \<Rightarrow> surprise)"

subsection \<open>The scenario of the test suite\<close>

definition scenario_new :: surprise_memory where
  "scenario_new =
     \<lparr> sm_content = Some (str ''User prefers TypeScript over JavaScript''), sm_createdAt = None \<rparr>"

definition scenario_existing :: "surprise_memory list" where
  "scenario_existing =
     [\<lparr> sm_content = Some (str ''User prefers JavaScript for all projects''), sm_createdAt = None \<rparr>]"

definition scenario_context :: surprise_context where
  "scenario_context = \<lparr> userContent = Some (str ''Actually, I prefer TypeScript'') \<rparr>"

section \<open>Example inputs\<close>

text \<open>The inputs of the store's test suite, used to instantiate the theorems below.\<close>

definition example_options :: create_options where
  "example_options =
     \<lparr> o_sessionId = Some ''test-session-1'',
       o_content = Some ''User prefers Python for data processing'',
       o_type = Some ''preference'',
       o_category = Some ''user'',
       o_importance = Given (Num 0.8),
       o_surpriseScore = Given (Num 0.6),
       o_accessCount = Undefined,
       o_decayFactor = Undefined,
       o_sourceTurnId = None,
       o_metadata = Given [(''source'', JStr ''conversation'')] \<rparr>"

definition minimal_options :: create_options where
  "minimal_options =
     \<lparr> o_sessionId = None,
       o_content = Some ''Test memory'',
       o_type = Some ''fact'',
       o_category = None,
       o_importance = Undefined,
       o_surpriseScore = Undefined,
       o_accessCount = Undefined,
       o_decayFactor = Undefined,
       o_sourceTurnId = None,
       o_metadata = Undefined \<rparr>"

text \<open>An input whose importance and surprise score lie outside the unit interval.\<close>

definition unclamped_options :: create_options where
  "unclamped_options =
     minimal_options\<lparr> o_importance := Given (Num 5), o_surpriseScore := Given (Num (- 1)) \<rparr>"

text \<open>An input with an explicit \<open>null\<close> for the importance and for the metadata.\<close>

definition null_options :: create_options where
  "null_options = minimal_options\<lparr> o_importance := Null, o_metadata := Null \<rparr>"

text \<open>
  The inputs the Memory data model describes: a numeric field is unset or a number other
  than \<open>NaN\<close>, the metadata is unset or a map.  \<open>number_or\<close> is the number such a field
  stands for, the documented default when it is unset.
\<close>

definition unset_or_number :: "number property \<Rightarrow> bool" where
  "unset_or_number p = (case p of Undefined \<Rightarrow> True | Given (Num v) \<Rightarrow> True | _ \<Rightarrow> False)"

definition data_model_input :: "create_options \<Rightarrow> bool" where
  "data_model_input x =
     (unset_or_number (o_importance x) \<and> unset_or_number (o_surpriseScore x) \<and>
      unset_or_number (o_accessCount x) \<and> unset_or_number (o_decayFactor x) \<and>
      o_metadata x \<noteq> Null)"

definition number_or :: "number property \<Rightarrow> real \<Rightarrow> real" where
  "number_or p d = (case p of Given (Num v) \<Rightarrow> v | _ \<Rightarrow> d)"

text \<open>
  A record that \<open>getMemory\<close> reads, as an object of the kind \<open>createMemory\<close> returns: two
  objects with the same fields are equal.
\<close>

definition as_returned :: "memory \<Rightarrow> created_memory" where
  "as_returned m =
     \<lparr> new_id = mem_id m,
       new_sessionId = sessionId m,
       new_content = content m,
       new_type = mem_type m,
       new_category = category m,
       new_importance = Some (Num (importance m)),
       new_surpriseScore = Some (Num (surpriseScore m)),
       new_accessCount = Some (Num (accessCount m)),
       new_decayFactor = Some (Num (decayFactor m)),
       new_sourceTurnId = sourceTurnId m,
       new_createdAt = createdAt m,
       new_updatedAt = updatedAt m,
       new_lastAccessedAt = lastAccessedAt m,
       new_metadata = Some (metadata m) \<rparr>"

text \<open>Rows for the examples: a row of type \<open>fact\<close> with the given id, session, content, importance and creation time.\<close>

definition example_row :: "int \<Rightarrow> string option \<Rightarrow> string \<Rightarrow> real \<Rightarrow> int \<Rightarrow> row" where
  "example_row i sid c imp created =
     \<lparr> col_id = i,
       col_session_id = sid,
       col_content = c,
       col_type = ''fact'',
       col_category = None,
       col_importance = Some imp,
       col_surprise_score = Some 0,
       col_access_count = Some 0,
       col_decay_factor = Some 1,
       col_source_turn_id = None,
       col_created_at = created,
       col_updated_at = created,
       col_last_accessed_at = None,
       col_metadata = Some (JSON_text []) \<rparr>"

text \<open>The table of the test "should filter by session id": two session memories and a global one.\<close>

definition session_rows :: db where
  "session_rows =
     [example_row 1 (Some ''session-1'') ''Session 1 memory'' 0.5 1000,
      example_row 2 (Some ''session-2'') ''Session 2 memory'' 0.5 2000,
      example_row 3 None ''Global memory'' 0.5 3000]"

text \<open>The table of the test "should filter count by session id".\<close>

definition count_rows :: db where
  "count_rows =
     [example_row 1 (Some ''session-1'') ''Session 1'' 0.5 1000,
      example_row 2 (Some ''session-2'') ''Session 2'' 0.5 2000]"

text \<open>
  The count as the specification words it, "integer count, optionally filtered": the
  rows of the given session, all rows when no session is given.  This definition follows
  the specification and the test suite, not \<open>store.js\<close>.
\<close>

definition countMemories_spec :: "string option \<Rightarrow> db \<Rightarrow> int" where
  "countMemories_spec sid rows =
     (case sid of
        None \<Rightarrow> int (length rows)
      | Some s \<Rightarrow> int (length (filter (\<lambda>r. col_session_id r = Some s) rows)))"

text \<open>The table of the test of \<open>pruneByCount\<close>.\<close>

definition importance_rows :: db where
  "importance_rows =
     [example_row 1 None ''Low 1'' 0.2 1000,
      example_row 2 None ''High 1'' 0.9 2000,
      example_row 3 None ''Low 2'' 0.3 3000,
      example_row 4 None ''High 2'' 0.8 4000,
      example_row 5 None ''Medium'' 0.5 5000]"

text \<open>A day in milliseconds, and a table with a memory 100 days older than the other.\<close>

definition day :: int where
  "day = 24 * 60 * 60 * 1000"

definition aged_rows :: db where
  "aged_rows =
     [example_row 1 None ''Old memory'' 0.5 (100 * day),
      example_row 2 None ''New memory'' 0.5 (200 * day)]"


text \<open>Arguments of \<open>memory_add\<close>: content alone, and the same with one invalid property.\<close>

definition content_only_args :: add_args where
  "content_only_args =
     \<lparr> a_content = Some (JS (JStr ''User prefers tabs'')), a_type = None, a_category = Undefined,
       a_importance = None \<rparr>"

definition bad_importance_args :: add_args where
  "bad_importance_args = content_only_args\<lparr> a_importance := Some (JS (JNum 1.5)) \<rparr>"

definition bad_type_args :: add_args where
  "bad_type_args = content_only_args\<lparr> a_type := Some (JS (JStr ''note'')) \<rparr>"

definition bad_content_args :: add_args where
  "bad_content_args = content_only_args\<lparr> a_content := Some (JS (JNum 42)) \<rparr>"

definition nan_importance_args :: add_args where
  "nan_importance_args = content_only_args\<lparr> a_importance := Some JSNaN \<rparr>"

text \<open>
  Weights for the examples, doubles like every number below: a quarter for recency and
  relevance and a half for importance, and weights that leave the importance out.
\<close>

definition example_weights :: weights where
  "example_weights = \<lparr> recencyWeight = 1 / 4, importanceWeight = 1 / 2, relevanceWeight = 1 / 4 \<rparr>"

definition zero_importance_weights :: weights where
  "zero_importance_weights =
     \<lparr> recencyWeight = 1 / 2, importanceWeight = 0, relevanceWeight = 1 / 2 \<rparr>"

text \<open>
  A keyword extractor for the examples (the one of \<open>search.js\<close> is not in the sources): a
  text is its own single keyword.
\<close>

definition whole_text_keyword :: "string \<Rightarrow> string list" where
  "whole_text_keyword s = [s]"

text \<open>A memory to score, created on day 100.\<close>

definition scored_memory :: memory where
  "scored_memory =
     \<lparr> mem_id = 1, sessionId = None, content = ''JavaScript'', mem_type = ''fact'',
       category = None, importance = 1 / 2, surpriseScore = 0, accessCount = 0,
       decayFactor = 1, sourceTurnId = None, createdAt = 100 * day, updatedAt = 100 * day,
       lastAccessedAt = None, metadata = [] \<rparr>"

text \<open>Candidates of the surprise engine: one without content, one with empty content, one with an emoji.\<close>

definition no_content :: surprise_memory where
  "no_content = \<lparr> sm_content = None, sm_createdAt = None \<rparr>"

definition empty_content :: surprise_memory where
  "empty_content = \<lparr> sm_content = Some [], sm_createdAt = None \<rparr>"

definition emoji_content :: surprise_memory where
  "emoji_content = \<lparr> sm_content = Some (str ''I '' @ [0xD83D, 0xDE00] @ str '' Rust''), sm_createdAt = None \<rparr>"

section \<open>Properties of the store\<close>

subsection \<open>Row ids and lookup\<close>

lemma fold_max_ge_init: "(a::int) \<le> fold max xs a"
  by (induction xs arbitrary: a) (auto intro: order_trans[OF max.cobounded2])

lemma fold_max_ge_elem: "x \<in> set xs \<Longrightarrow> (x::int) \<le> fold max xs a"
proof (induction xs arbitrary: a)
  case Nil
  then show ?case by simp
next
  case (Cons y ys)
  show ?case
  proof (cases "x = y")
    case True
    have "x \<le> max y a" using True by simp
    also have "\<dots> \<le> fold max ys (max y a)" by (rule fold_max_ge_init)
    finally show ?thesis by simp
  next
    case False
    with Cons show ?thesis by simp
  qed
qed

lemma lastInsertRowid_fresh: "r \<in> set rows \<Longrightarrow> col_id r < lastInsertRowid rows"
  unfolding lastInsertRowid_def
  using fold_max_ge_elem[of "col_id r" "map col_id rows" 0] by auto

lemma find_fresh_append:
  "\<forall>r \<in> set rows. \<not> P r \<Longrightarrow> P x \<Longrightarrow> find P (rows @ [x]) = Some x"
  by (induction rows) auto

lemma getMemory_inserted:
  "col_id r = lastInsertRowid rows \<Longrightarrow>
   getMemory (lastInsertRowid rows) (rows @ [r]) = Some (toMemory r)"
  unfolding getMemory_def
  using find_fresh_append[of rows "\<lambda>q. col_id q = lastInsertRowid rows" r]
    lastInsertRowid_fresh[of _ rows]
  by fastforce

text \<open>What a successful \<open>createMemory\<close> returns and inserts.\<close>

lemma createMemory_Inr:
  assumes "createMemory now x rows = Inr (m, rows')"
  shows "new_importance m = with_default (o_importance x) (Num 0.5)"
    and "new_surpriseScore m = with_default (o_surpriseScore x) (Num 0)"
    and "\<exists>r. rows' = rows @ [r] \<and> col_id r = new_id m \<and>
             col_importance r = bind_number (new_importance m) \<and>
             col_surprise_score r = bind_number (new_surpriseScore m)"
proof -
  from assms have nf: "\<not> (falsy (o_content x) \<or> falsy (o_type x))"
    by (auto simp: createMemory_def Let_def split: if_splits)
  from assms nf show "new_importance m = with_default (o_importance x) (Num 0.5)"
    by (auto simp: createMemory_def Let_def)
  from assms nf show "new_surpriseScore m = with_default (o_surpriseScore x) (Num 0)"
    by (auto simp: createMemory_def Let_def)
  from assms nf show "\<exists>r. rows' = rows @ [r] \<and> col_id r = new_id m \<and>
             col_importance r = bind_number (new_importance m) \<and>
             col_surprise_score r = bind_number (new_surpriseScore m)"
    by (auto simp: createMemory_def Let_def)
qed

lemma unset_or_number_default:
  assumes "unset_or_number p"
  shows "with_default p (Num d) = Some (Num (number_or p d))"
    and "nullish (bind_number (with_default p (Num d))) d' = number_or p d"
  using assms
  by (auto simp: unset_or_number_def with_default_def number_or_def bind_number_def nullish_def
      split: property.splits number.splits)

lemma metadata_default:
  assumes "p \<noteq> Null"
  shows "with_default p [] = Some (case p of Given v \<Rightarrow> v | _ \<Rightarrow> [])"
    and "parseJSON (serialize (with_default p [])) [] = (case p of Given v \<Rightarrow> v | _ \<Rightarrow> [])"
  using assms
  by (auto simp: with_default_def parseJSON_def serialize_def JSON_stringify_def
      split: property.splits)

text \<open>
  On an input of the data model with content and type, \<open>createMemory\<close> returns the record
  with the supplied fields and the defaults, and \<open>getMemory\<close> reads the same record back.
\<close>

lemma createMemory_data_model:
  assumes c: "o_content x = Some c" "c \<noteq> []" and t: "o_type x = Some t" "t \<noteq> []"
    and dm: "data_model_input x"
    and m': "m' = \<lparr> mem_id = lastInsertRowid rows,
                 sessionId = o_sessionId x,
                 content = c,
                 mem_type = t,
                 category = o_category x,
                 importance = number_or (o_importance x) 0.5,
                 surpriseScore = number_or (o_surpriseScore x) 0,
                 accessCount = number_or (o_accessCount x) 0,
                 decayFactor = number_or (o_decayFactor x) 1,
                 sourceTurnId = o_sourceTurnId x,
                 createdAt = now,
                 updatedAt = now,
                 lastAccessedAt = None,
                 metadata = (case o_metadata x of Given v \<Rightarrow> v | _ \<Rightarrow> []) \<rparr>"
  shows "\<exists>rows'. createMemory now x rows = Inr (as_returned m', rows') \<and>
           getMemory (lastInsertRowid rows) rows' = Some m'"
proof -
  from dm have n: "unset_or_number (o_importance x)" "unset_or_number (o_surpriseScore x)"
    "unset_or_number (o_accessCount x)" "unset_or_number (o_decayFactor x)"
    and md: "o_metadata x \<noteq> Null"
    by (simp_all add: data_model_input_def)
  define r where "r =
     \<lparr> col_id = lastInsertRowid rows,
       col_session_id = o_sessionId x,
       col_content = c,
       col_type = t,
       col_category = o_category x,
       col_importance = bind_number (with_default (o_importance x) (Num 0.5)),
       col_surprise_score = bind_number (with_default (o_surpriseScore x) (Num 0)),
       col_access_count = bind_number (with_default (o_accessCount x) (Num 0)),
       col_decay_factor = bind_number (with_default (o_decayFactor x) (Num 1)),
       col_source_turn_id = o_sourceTurnId x,
       col_created_at = now,
       col_updated_at = now,
       col_last_accessed_at = None,
       col_metadata = serialize (with_default (o_metadata x) []) \<rparr>"
  have tm: "toMemory r = m'"
    unfolding m' r_def toMemory_def
    by (simp add: unset_or_number_default(2)[OF n(1)] unset_or_number_default(2)[OF n(2)]
        unset_or_number_default(2)[OF n(3)] unset_or_number_default(2)[OF n(4)]
        metadata_default(2)[OF md])
  have "createMemory now x rows = Inr (as_returned m', rows @ [r])"
    unfolding m' r_def as_returned_def createMemory_def Let_def
    using c t
    by (simp add: falsy_def unset_or_number_default(1)[OF n(1)] unset_or_number_default(1)[OF n(2)]
        unset_or_number_default(1)[OF n(3)] unset_or_number_default(1)[OF n(4)]
        metadata_default(1)[OF md])
  moreover have "getMemory (lastInsertRowid rows) (rows @ [r]) = Some m'"
    using getMemory_inserted[of r rows] tm by (simp add: r_def)
  ultimately show ?thesis by blast
qed

subsection \<open>Creation\<close>

text \<open>
  C1 (amended).  \<open>createMemory\<close> does not clamp.  The object it returns carries the
  importance and the surprise score as supplied (0.5 and 0 when unset, \<open>null\<close> when
  \<open>null\<close>), and the row it inserts holds the same values (\<open>NULL\<close> for \<open>null\<close> and \<open>NaN\<close>): a
  score of the created memory is a number of the unit interval exactly when it is unset
  or the supplied value is one.  On an input of the data model, the object returned is
  the record that \<open>getMemory\<close> reads back from the table.
\<close>

theorem createMemory_scores_as_supplied:
  assumes "createMemory now x rows = Inr (m, rows')"
  shows "new_importance m = with_default (o_importance x) (Num 0.5) \<and>
         new_surpriseScore m = with_default (o_surpriseScore x) (Num 0) \<and>
         (\<exists>r. rows' = rows @ [r] \<and> col_id r = new_id m \<and>
              col_importance r = bind_number (new_importance m) \<and>
              col_surprise_score r = bind_number (new_surpriseScore m)) \<and>
         (\<exists>v. new_importance m = Some (Num v) \<and> 0 \<le> v \<and> v \<le> 1) =
           (o_importance x = Undefined \<or>
            (\<exists>v. o_importance x = Given (Num v) \<and> 0 \<le> v \<and> v \<le> 1)) \<and>
         (\<exists>v. new_surpriseScore m = Some (Num v) \<and> 0 \<le> v \<and> v \<le> 1) =
           (o_surpriseScore x = Undefined \<or>
            (\<exists>v. o_surpriseScore x = Given (Num v) \<and> 0 \<le> v \<and> v \<le> 1)) \<and>
         (data_model_input x \<longrightarrow>
            (\<exists>m'. getMemory (new_id m) rows' = Some m' \<and> as_returned m' = m \<and>
                  importance m' = number_or (o_importance x) 0.5 \<and>
                  surpriseScore m' = number_or (o_surpriseScore x) 0))"
proof (intro conjI impI)
  show i: "new_importance m = with_default (o_importance x) (Num 0.5)"
    by (rule createMemory_Inr(1)[OF assms])
  show s: "new_surpriseScore m = with_default (o_surpriseScore x) (Num 0)"
    by (rule createMemory_Inr(2)[OF assms])
  show "\<exists>r. rows' = rows @ [r] \<and> col_id r = new_id m \<and>
              col_importance r = bind_number (new_importance m) \<and>
              col_surprise_score r = bind_number (new_surpriseScore m)"
    by (rule createMemory_Inr(3)[OF assms])
  show "(\<exists>v. new_importance m = Some (Num v) \<and> 0 \<le> v \<and> v \<le> 1) =
           (o_importance x = Undefined \<or>
            (\<exists>v. o_importance x = Given (Num v) \<and> 0 \<le> v \<and> v \<le> 1))"
    unfolding i by (cases "o_importance x") (auto simp: with_default_def intro: exI[of _ "1 / 2"])
  show "(\<exists>v. new_surpriseScore m = Some (Num v) \<and> 0 \<le> v \<and> v \<le> 1) =
           (o_surpriseScore x = Undefined \<or>
            (\<exists>v. o_surpriseScore x = Given (Num v) \<and> 0 \<le> v \<and> v \<le> 1))"
    unfolding s by (cases "o_surpriseScore x") (auto simp: with_default_def intro: exI[of _ 0])
next
  assume dm: "data_model_input x"
  from assms obtain c t where ct: "o_content x = Some c" "c \<noteq> []" "o_type x = Some t" "t \<noteq> []"
    by (auto simp: createMemory_def Let_def falsy_def split: if_splits option.splits)
  define m' where "m' = \<lparr> mem_id = lastInsertRowid rows,
                 sessionId = o_sessionId x,
                 content = c,
                 mem_type = t,
                 category = o_category x,
                 importance = number_or (o_importance x) 0.5,
                 surpriseScore = number_or (o_surpriseScore x) 0,
                 accessCount = number_or (o_accessCount x) 0,
                 decayFactor = number_or (o_decayFactor x) 1,
                 sourceTurnId = o_sourceTurnId x,
                 createdAt = now,
                 updatedAt = now,
                 lastAccessedAt = None,
                 metadata = (case o_metadata x of Given v \<Rightarrow> v | _ \<Rightarrow> []) \<rparr>"
  from createMemory_data_model[OF ct dm m'_def] assms
  have "m = as_returned m'" and "getMemory (lastInsertRowid rows) rows' = Some m'"
    by auto
  moreover have "new_id (as_returned m') = lastInsertRowid rows"
    by (simp add: as_returned_def m'_def)
  moreover have "importance m' = number_or (o_importance x) 0.5"
    "surpriseScore m' = number_or (o_surpriseScore x) 0"
    by (simp_all add: m'_def)
  ultimately show "\<exists>m'. getMemory (new_id m) rows' = Some m' \<and> as_returned m' = m \<and>
                  importance m' = number_or (o_importance x) 0.5 \<and>
                  surpriseScore m' = number_or (o_surpriseScore x) 0"
    by auto
qed

theorem createMemory_scores_as_supplied_witness:
  "\<exists>m rows' m'. createMemory 1000 example_options [] = Inr (m, rows') \<and>
     new_importance m = Some (Num (8 / 10)) \<and> new_surpriseScore m = Some (Num (6 / 10)) \<and>
     map col_importance rows' = [Some (8 / 10)] \<and> map col_surprise_score rows' = [Some (6 / 10)] \<and>
     getMemory (new_id m) rows' = Some m' \<and> as_returned m' = m \<and>
     importance m' = 8 / 10 \<and> surpriseScore m' = 6 / 10"
proof -
  obtain m rows' where eq: "createMemory 1000 example_options [] = Inr (m, rows')"
    by (simp add: createMemory_def example_options_def falsy_def Let_def)
  have dm: "data_model_input example_options"
    by (simp add: data_model_input_def unset_or_number_def example_options_def)
  from createMemory_scores_as_supplied[OF eq] dm eq show ?thesis
    by (auto simp: example_options_def with_default_def bind_number_def number_or_def)
qed

text \<open>
  C1 as stated fails: created with importance 5 and surprise score -1, a memory is
  returned and stored with importance 5 and surprise score -1.
\<close>

theorem createMemory_unclamped_counterexample:
  "map_sum id
     (\<lambda>(m, rows'). (new_importance m, new_surpriseScore m, map col_importance rows',
                    map col_surprise_score rows'))
     (createMemory 1000 unclamped_options []) =
   Inr (Some (Num 5), Some (Num (- 1)), [Some 5], [Some (- 1)])"
  by (simp add: createMemory_def unclamped_options_def minimal_options_def falsy_def Let_def
      with_default_def bind_number_def)

text \<open>
  C2 (amended).  Round trip on the inputs of the data model: for an input with non-empty
  content and type whose numeric fields are unset or numbers other than \<open>NaN\<close> and whose
  metadata is unset or a map, \<open>createMemory\<close> succeeds, \<open>getMemory\<close> of the assigned id
  returns a record equal on every field to the object \<open>createMemory\<close> returned, and that
  record carries the supplied fields, the defaults for the unset ones (importance 0.5,
  surprise score 0, access count 0, decay factor 1, null session, category and source
  turn, empty metadata), \<open>createdAt = updatedAt = now\<close> and no last access.
\<close>

theorem createMemory_getMemory_roundtrip:
  assumes "o_content x = Some c" and "c \<noteq> []" and "o_type x = Some t" and "t \<noteq> []"
    and "data_model_input x"
  shows "\<exists>m m' rows'. createMemory now x rows = Inr (m, rows') \<and>
           getMemory (new_id m) rows' = Some m' \<and>
           as_returned m' = m \<and>
           m' = \<lparr> mem_id = lastInsertRowid rows,
                  sessionId = o_sessionId x,
                  content = c,
                  mem_type = t,
                  category = o_category x,
                  importance = number_or (o_importance x) 0.5,
                  surpriseScore = number_or (o_surpriseScore x) 0,
                  accessCount = number_or (o_accessCount x) 0,
                  decayFactor = number_or (o_decayFactor x) 1,
                  sourceTurnId = o_sourceTurnId x,
                  createdAt = now,
                  updatedAt = now,
                  lastAccessedAt = None,
                  metadata = (case o_metadata x of Given v \<Rightarrow> v | _ \<Rightarrow> []) \<rparr>"
proof -
  define m' where "m' = \<lparr> mem_id = lastInsertRowid rows,
                  sessionId = o_sessionId x,
                  content = c,
                  mem_type = t,
                  category = o_category x,
                  importance = number_or (o_importance x) 0.5,
                  surpriseScore = number_or (o_surpriseScore x) 0,
                  accessCount = number_or (o_accessCount x) 0,
                  decayFactor = number_or (o_decayFactor x) 1,
                  sourceTurnId = o_sourceTurnId x,
                  createdAt = now,
                  updatedAt = now,
                  lastAccessedAt = None,
                  metadata = (case o_metadata x of Given v \<Rightarrow> v | _ \<Rightarrow> []) \<rparr>"
  from createMemory_data_model[OF assms m'_def]
  obtain rows' where r: "createMemory now x rows = Inr (as_returned m', rows')"
    "getMemory (lastInsertRowid rows) rows' = Some m'"
    by blast
  have "new_id (as_returned m') = lastInsertRowid rows"
    by (simp add: as_returned_def m'_def)
  with r have "createMemory now x rows = Inr (as_returned m', rows') \<and>
           getMemory (new_id (as_returned m')) rows' = Some m' \<and>
           as_returned m' = as_returned m'"
    by simp
  then show ?thesis unfolding m'_def by blast
qed

theorem createMemory_getMemory_roundtrip_witness:
  "\<exists>m m' rows'. createMemory 1000 minimal_options [] = Inr (m, rows') \<and>
     getMemory (new_id m) rows' = Some m' \<and>
     as_returned m' = m \<and>
     m' = \<lparr> mem_id = 1, sessionId = None, content = ''Test memory'', mem_type = ''fact'',
            category = None, importance = 0.5, surpriseScore = 0, accessCount = 0,
            decayFactor = 1, sourceTurnId = None, createdAt = 1000, updatedAt = 1000,
            lastAccessedAt = None, metadata = [] \<rparr>"
proof -
  have dm: "data_model_input minimal_options"
    by (simp add: data_model_input_def unset_or_number_def minimal_options_def)
  from createMemory_getMemory_roundtrip[of minimal_options "''Test memory''" "''fact''" 1000 "[]"] dm
  show ?thesis
    by (simp add: minimal_options_def lastInsertRowid_def number_or_def)
qed

text \<open>
  C2 as stated fails on an input with an explicit \<open>null\<close>: created with importance \<open>null\<close>
  and metadata \<open>null\<close>, the object returned has importance \<open>null\<close> and metadata \<open>null\<close>,
  while \<open>getMemory\<close> of its id reads importance 0.5 and the empty metadata.
\<close>

theorem createMemory_null_roundtrip_counterexample:
  "map_sum id
     (\<lambda>(m, rows'). (new_importance m, new_metadata m,
                    map_option (\<lambda>m'. (importance m', metadata m')) (getMemory (new_id m) rows')))
     (createMemory 1000 null_options []) =
   Inr (None, None, Some (1 / 2, []))"
  by (simp add: createMemory_def null_options_def minimal_options_def falsy_def Let_def
      with_default_def bind_number_def serialize_def getMemory_def toMemory_def nullish_def
      parseJSON_def lastInsertRowid_def)

subsection \<open>Update\<close>






subsection \<open>Queries and pruning\<close>

lemma where_session_None: "filter (where_session None) rows = rows"
  by (simp add: where_session_def)

lemma take_filter_prefix:
  "\<forall>x \<in> set (take k xs). P x \<Longrightarrow> take k (filter P xs) = take k xs"
proof (induction xs arbitrary: k)
  case Nil
  then show ?case by simp
next
  case (Cons x xs)
  then show ?case by (cases k) auto
qed

lemma sql_limit_filter_prefix:
  "\<forall>x \<in> set (sql_limit n xs). P x \<Longrightarrow> sql_limit n (filter P xs) = sql_limit n xs"
  by (auto simp: sql_limit_def take_filter_prefix intro: filter_True)

lemma sql_delete_none: "\<forall>r \<in> set rows. \<not> p r \<Longrightarrow> sql_delete p rows = (0, rows)"
  by (simp add: sql_delete_def filter_empty_conv[THEN iffD2] cong: filter_cong)

lemma pruneByCount_kept:
  "snd (pruneByCount n rows) =
   filter (\<lambda>r. col_id r \<in> set (map col_id (sql_limit n (sort_key importance_desc_created_at_desc rows)))) rows"
  by (simp add: pruneByCount_def pruneByCountStmt_def sql_delete_def)

lemma pruneByCount_twice:
  "pruneByCount n (snd (pruneByCount n rows)) = (0, snd (pruneByCount n rows))"
proof -
  let ?f = importance_desc_created_at_desc
  let ?K = "set (map col_id (sql_limit n (sort_key ?f rows)))"
  let ?P = "\<lambda>r. col_id r \<in> ?K"
  let ?rows' = "filter ?P rows"
  have "sql_limit n (sort_key ?f ?rows') = sql_limit n (filter ?P (sort_key ?f rows))"
    by (simp add: filter_sort)
  also have "\<dots> = sql_limit n (sort_key ?f rows)"
    by (rule sql_limit_filter_prefix) simp
  finally have same: "sql_limit n (sort_key ?f ?rows') = sql_limit n (sort_key ?f rows)" .
  have "pruneByCount n ?rows' = (0, ?rows')"
    unfolding pruneByCount_def pruneByCountStmt_def same
    by (rule sql_delete_none) simp
  then show ?thesis by (simp add: pruneByCount_kept)
qed

lemma pruneOldMemories_twice:
  assumes "\<forall>r \<in> set rows. now1 - a \<le> col_created_at r \<longrightarrow> now2 - a \<le> col_created_at r"
  shows "pruneOldMemories now2 a (snd (pruneOldMemories now1 a rows)) =
         (0, snd (pruneOldMemories now1 a rows))"
proof -
  have "sql_delete (\<lambda>r. col_created_at r < now2 - a)
          (filter (\<lambda>r. \<not> col_created_at r < now1 - a) rows)
        = (0, filter (\<lambda>r. \<not> col_created_at r < now1 - a) rows)"
    by (rule sql_delete_none) (use assms in auto)
  then show ?thesis
    by (simp add: pruneOldMemories_def sql_delete_def Let_def)
qed

lemma sorted_desc_toMemory:
  "sorted (map created_at_desc rs) \<Longrightarrow>
   sorted_wrt (\<lambda>a b. createdAt b \<le> createdAt a) (map toMemory rs)"
  by (induction rs) (auto simp: created_at_desc_def toMemory_def)

lemma sorted_sql_limit: "sorted (map f xs) \<Longrightarrow> sorted (map f (sql_limit n xs))"
  by (auto simp: sql_limit_def take_map[symmetric] intro: sorted_wrt_take)

lemma length_sql_limit:
  "length (sql_limit n xs) = (if n < 0 then length xs else min (nat n) (length xs))"
  by (simp add: sql_limit_def min.commute)

lemma set_sql_limit_subset: "set (sql_limit n xs) \<subseteq> set xs"
  by (auto simp: sql_limit_def dest: in_set_takeD)

lemma sql_limit_all: "n < 0 \<or> int (length xs) \<le> n \<Longrightarrow> sql_limit n xs = xs"
  by (auto simp: sql_limit_def)

text \<open>
  C7.  With a null session id \<open>getRecentMemories\<close> applies no session filter: its result
  is the whole table, global and session-scoped rows alike, ordered by descending
  creation time and cut at the limit (10 by default; a negative limit is no limit).
  The result is sorted, has the length of the limit or of the table, whichever is
  smaller, and holds every memory of the table when the limit allows.
\<close>

theorem getRecentMemories_null_session:
  "getRecentMemories \<lparr> l_limit = lmt, l_sessionId = None \<rparr> rows =
     map toMemory (sql_limit (nullish lmt 10) (sort_key created_at_desc rows)) \<and>
   sorted_wrt (\<lambda>a b. createdAt b \<le> createdAt a)
     (getRecentMemories \<lparr> l_limit = lmt, l_sessionId = None \<rparr> rows) \<and>
   length (getRecentMemories \<lparr> l_limit = lmt, l_sessionId = None \<rparr> rows) =
     (if nullish lmt 10 < 0 then length rows else min (nat (nullish lmt 10)) (length rows)) \<and>
   set (getRecentMemories \<lparr> l_limit = lmt, l_sessionId = None \<rparr> rows) \<subseteq> toMemory ` set rows \<and>
   (nullish lmt 10 < 0 \<or> int (length rows) \<le> nullish lmt 10 \<longrightarrow>
      set (getRecentMemories \<lparr> l_limit = lmt, l_sessionId = None \<rparr> rows) = toMemory ` set rows)"
proof -
  let ?n = "nullish lmt 10"
  let ?sorted = "sort_key created_at_desc rows"
  have eq: "getRecentMemories \<lparr> l_limit = lmt, l_sessionId = None \<rparr> rows =
      map toMemory (sql_limit ?n ?sorted)"
    by (simp add: getRecentMemories_def getRecentMemoriesStmt_def where_session_None Let_def)
  have "sorted (map created_at_desc ?sorted)"
    by (rule sorted_sort_key)
  then have srt: "sorted_wrt (\<lambda>a b. createdAt b \<le> createdAt a) (map toMemory (sql_limit ?n ?sorted))"
    by (intro sorted_desc_toMemory sorted_sql_limit)
  have len: "length (map toMemory (sql_limit ?n ?sorted)) =
      (if ?n < 0 then length rows else min (nat ?n) (length rows))"
    by (simp add: length_sql_limit)
  have sub: "set (map toMemory (sql_limit ?n ?sorted)) \<subseteq> toMemory ` set rows"
    using set_sql_limit_subset[of ?n ?sorted] by auto
  have all: "?n < 0 \<or> int (length rows) \<le> ?n \<Longrightarrow>
      set (map toMemory (sql_limit ?n ?sorted)) = toMemory ` set rows"
    using sql_limit_all[of ?n ?sorted] by simp
  show ?thesis
    unfolding eq using srt len sub all by blast
qed

theorem getRecentMemories_null_session_witness:
  "getRecentMemories \<lparr> l_limit = None, l_sessionId = None \<rparr> session_rows =
     map toMemory
       [example_row 3 None ''Global memory'' 0.5 3000,
        example_row 2 (Some ''session-2'') ''Session 2 memory'' 0.5 2000,
        example_row 1 (Some ''session-1'') ''Session 1 memory'' 0.5 1000] \<and>
   getRecentMemories \<lparr> l_limit = Some 2, l_sessionId = None \<rparr> session_rows =
     map toMemory
       [example_row 3 None ''Global memory'' 0.5 3000,
        example_row 2 (Some ''session-2'') ''Session 2 memory'' 0.5 2000] \<and>
   set (getRecentMemories \<lparr> l_limit = None, l_sessionId = None \<rparr> session_rows) =
     toMemory ` set session_rows"
proof -
  have srt: "sort_key created_at_desc session_rows =
       [example_row 3 None ''Global memory'' 0.5 3000,
        example_row 2 (Some ''session-2'') ''Session 2 memory'' 0.5 2000,
        example_row 1 (Some ''session-1'') ''Session 1 memory'' 0.5 1000]"
    by (simp add: session_rows_def created_at_desc_def example_row_def)
  have len: "length session_rows = 3"
    by (simp add: session_rows_def)
  from getRecentMemories_null_session[of None session_rows]
  have all: "getRecentMemories \<lparr> l_limit = None, l_sessionId = None \<rparr> session_rows =
     map toMemory
       [example_row 3 None ''Global memory'' 0.5 3000,
        example_row 2 (Some ''session-2'') ''Session 2 memory'' 0.5 2000,
        example_row 1 (Some ''session-1'') ''Session 1 memory'' 0.5 1000]"
    by (simp add: srt len nullish_def sql_limit_def)
  from getRecentMemories_null_session[of "Some 2" session_rows]
  have two: "getRecentMemories \<lparr> l_limit = Some 2, l_sessionId = None \<rparr> session_rows =
     map toMemory
       [example_row 3 None ''Global memory'' 0.5 3000,
        example_row 2 (Some ''session-2'') ''Session 2 memory'' 0.5 2000]"
    by (simp add: srt len nullish_def sql_limit_def)
  have "set (getRecentMemories \<lparr> l_limit = None, l_sessionId = None \<rparr> session_rows) =
     toMemory ` set session_rows"
    unfolding all by (auto simp: session_rows_def)
  with all two show ?thesis by blast
qed

text \<open>
  C8.  \<open>countMemories\<close> has no session filter.  On the table of the test "should filter
  count by session id" it returns 2, where the count of the memories of \<open>session-1\<close>, which
  the specification and the test expect for \<open>countMemories({sessionId: "session-1"})\<close>, is 1.
\<close>

theorem countMemories_ignores_session:
  "countMemories count_rows = 2 \<and> countMemories_spec (Some ''session-1'') count_rows = 1"
  by (simp add: countMemories_def countMemoriesStmt_def countMemories_spec_def count_rows_def
      example_row_def)

text \<open>
  C9 (amended).  A second \<open>pruneOldMemories\<close> with the same maximal age deletes nothing
  when no memory that survived the first call has passed the cut-off by the time of the
  second, which holds in particular when both calls read the same clock value.  A
  second \<open>pruneByCount\<close> with the same count deletes nothing, always.
\<close>

theorem prune_second_call_deletes_nothing:
  "((\<forall>r \<in> set rows. now1 - a \<le> col_created_at r \<longrightarrow> now2 - a \<le> col_created_at r) \<longrightarrow>
      pruneOldMemories now2 a (snd (pruneOldMemories now1 a rows)) =
        (0, snd (pruneOldMemories now1 a rows))) \<and>
   pruneByCount n (snd (pruneByCount n rows)) = (0, snd (pruneByCount n rows))"
  using pruneOldMemories_twice[of rows now1 a now2] pruneByCount_twice[of n rows]
  by blast

theorem prune_second_call_deletes_nothing_witness:
  "pruneOldMemories (200 * day) (90 * day) aged_rows =
     (1, [example_row 2 None ''New memory'' 0.5 (200 * day)]) \<and>
   pruneOldMemories (200 * day + 5) (90 * day)
     (snd (pruneOldMemories (200 * day) (90 * day) aged_rows)) =
     (0, [example_row 2 None ''New memory'' 0.5 (200 * day)]) \<and>
   fst (pruneByCount 3 importance_rows) = 2 \<and>
   pruneByCount 3 (snd (pruneByCount 3 importance_rows)) = (0, snd (pruneByCount 3 importance_rows))"
proof -
  have first: "pruneOldMemories (200 * day) (90 * day) aged_rows =
     (1, [example_row 2 None ''New memory'' 0.5 (200 * day)])"
    by (simp add: pruneOldMemories_def sql_delete_def aged_rows_def example_row_def day_def)
  have hyp: "\<forall>r \<in> set aged_rows.
      200 * day - 90 * day \<le> col_created_at r \<longrightarrow> 200 * day + 5 - 90 * day \<le> col_created_at r"
    by (simp add: aged_rows_def example_row_def day_def)
  have cnt: "fst (pruneByCount 3 importance_rows) = 2"
    by (simp add: pruneByCount_def pruneByCountStmt_def sql_delete_def sql_limit_def
        importance_rows_def example_row_def importance_desc_created_at_desc_def)
  from prune_second_call_deletes_nothing[of aged_rows "200 * day" "90 * day" "200 * day + 5" 3]
       prune_second_call_deletes_nothing[of importance_rows 0 0 0 3]
       hyp first cnt
  show ?thesis by simp
qed

text \<open>
  C9 as stated fails, because \<open>pruneOldMemories\<close> reads the clock: a memory created at
  time 100 survives a call at time 120 with maximal age 50, and the next call, at time
  160 with no write in between, deletes it and returns 1.
\<close>

theorem pruneOldMemories_second_call_counterexample:
  "pruneOldMemories 120 50 [example_row 1 None ''Memory'' 0.5 100] =
     (0, [example_row 1 None ''Memory'' 0.5 100]) \<and>
   pruneOldMemories 160 50 (snd (pruneOldMemories 120 50 [example_row 1 None ''Memory'' 0.5 100])) =
     (1, [])"
  by (simp add: pruneOldMemories_def sql_delete_def example_row_def)

section \<open>Properties of the memory tools\<close>

lemma memory_add_bad_content:
  assumes "\<not> (\<exists>c. a_content a = Some (JS (JStr c)) \<and> c \<noteq> [])"
  shows "memory_add ts now (Some a) ctx rows =
     Inr (tool_error [(''error'', JStr ''Content parameter is required and must be a string'')],
          rows)"
proof -
  have "\<not> truthy (a_content a) \<or> typeof (a_content a) \<noteq> ''string''"
    using assms by (cases "a_content a" rule: typeof.cases) auto
  then show ?thesis by (simp add: memory_add_def Let_def)
qed

lemma content_accepted:
  assumes "a_content a = Some (JS (JStr c))" "c \<noteq> []"
  shows "\<not> (\<not> truthy (a_content a) \<or> typeof (a_content a) \<noteq> ''string'')"
  using assms by simp

lemma type_accepted:
  assumes "a_type a = None \<or> (\<exists>t \<in> set memory_types. a_type a = Some (JS (JStr t)))"
  shows "destructured (a_type a) (JS (JStr ''fact'')) \<in> set (map (\<lambda>t. JS (JStr t)) memory_types)"
  using assms by (auto simp: destructured_def memory_types_def)

lemma memory_add_bad_type:
  assumes "a_content a = Some (JS (JStr c))" "c \<noteq> []"
    and "a_type a \<noteq> None" "\<not> (\<exists>t \<in> set memory_types. a_type a = Some (JS (JStr t)))"
  shows "memory_add ts now (Some a) ctx rows =
     Inr (tool_error [(''error'',
            JStr ''Invalid type. Must be one of: fact, preference, decision, entity, relationship'')],
          rows)"
proof -
  from assms(3) obtain j where j: "a_type a = Some j" by auto
  with assms(4) have "j \<notin> set (map (\<lambda>t. JS (JStr t)) memory_types)" by auto
  with j have "destructured (a_type a) (JS (JStr ''fact''))
      \<notin> set (map (\<lambda>t. JS (JStr t)) memory_types)"
    by (simp add: destructured_def)
  with content_accepted[OF assms(1,2)] show ?thesis
    unfolding memory_add_def Let_def by simp
qed

lemma memory_add_bad_importance:
  assumes "a_content a = Some (JS (JStr c))" "c \<noteq> []"
    and "a_type a = None \<or> (\<exists>t \<in> set memory_types. a_type a = Some (JS (JStr t)))"
    and "a_importance a \<noteq> None" "a_importance a \<noteq> Some JSNaN"
    and "\<not> (\<exists>v. a_importance a = Some (JS (JNum v)) \<and> 0 \<le> v \<and> v \<le> 1)"
  shows "memory_add ts now (Some a) ctx rows =
     Inr (tool_error [(''error'', JStr ''Importance must be a number between 0 and 1'')], rows)"
proof -
  from assms(4) obtain j where j: "a_importance a = Some j" by auto
  have "typeof (Some j) \<noteq> ''number'' \<or> outside_unit_interval j"
    using assms(5,6) j by (cases "Some j" rule: typeof.cases) auto
  then have "typeof (Some (destructured (a_importance a) (JS (JNum 0.5)))) \<noteq> ''number'' \<or>
      outside_unit_interval (destructured (a_importance a) (JS (JNum 0.5)))"
    using j by (simp add: destructured_def)
  with content_accepted[OF assms(1,2)] type_accepted[OF assms(3)] show ?thesis
    unfolding memory_add_def Let_def by simp
qed

text \<open>
  Past the three checks the call reaches the \<open>try\<close>: the importance is a number in range
  or \<open>NaN\<close>.
\<close>

lemma memory_add_try:
  assumes "a_content a = Some (JS (JStr c))" "c \<noteq> []"
    and "a_type a = None \<or> (\<exists>t \<in> set memory_types. a_type a = Some (JS (JStr t)))"
    and "a_importance a = None \<or> a_importance a = Some JSNaN \<or>
         (\<exists>v. a_importance a = Some (JS (JNum v)) \<and> 0 \<le> v \<and> v \<le> 1)"
  shows "ctx = Null \<longrightarrow>
           memory_add ts now (Some a) ctx rows =
             Inr (tool_error [(''error'', JStr ''Failed to add memory''),
                              (''message'', JStr (error_message TypeError))],
                  rows)"
    and "ctx \<noteq> Null \<longrightarrow>
           (\<exists>res r. memory_add ts now (Some a) ctx rows = Inr (res, rows @ [r]) \<and> ok res \<and>
              col_content r = c \<and>
              col_importance r =
                bind_number (with_default (as_number (destructured (a_importance a) (JS (JNum 0.5))))
                  (Num 0.5)))"
proof -
  have ty: "destructured (a_type a) (JS (JStr ''fact'')) \<in> set (map (\<lambda>t. JS (JStr t)) memory_types)"
    by (rule type_accepted[OF assms(3)])
  then obtain t where t: "destructured (a_type a) (JS (JStr ''fact'')) = JS (JStr t)" "t \<noteq> []"
    by (auto simp: memory_types_def)
  have im: "\<not> (typeof (Some (destructured (a_importance a) (JS (JNum 0.5)))) \<noteq> ''number'' \<or>
      outside_unit_interval (destructured (a_importance a) (JS (JNum 0.5))))"
    using assms(4) by (auto simp: destructured_def)
  note co = content_accepted[OF assms(1,2)]
  show "ctx = Null \<longrightarrow>
           memory_add ts now (Some a) ctx rows =
             Inr (tool_error [(''error'', JStr ''Failed to add memory''),
                              (''message'', JStr (error_message TypeError))],
                  rows)"
    unfolding memory_add_def Let_def using co ty im by simp
  show "ctx \<noteq> Null \<longrightarrow>
           (\<exists>res r. memory_add ts now (Some a) ctx rows = Inr (res, rows @ [r]) \<and> ok res \<and>
              col_content r = c \<and>
              col_importance r =
                bind_number (with_default (as_number (destructured (a_importance a) (JS (JNum 0.5))))
                  (Num 0.5)))"
  proof
    assume "ctx \<noteq> Null"
    then obtain sid where sid: "(case ctx of Null \<Rightarrow> Inl TypeError | Undefined \<Rightarrow> Inr None
        | Given session_id \<Rightarrow> Inr session_id) = Inr sid"
      by (cases ctx) auto
    show "\<exists>res r. memory_add ts now (Some a) ctx rows = Inr (res, rows @ [r]) \<and> ok res \<and>
              col_content r = c \<and>
              col_importance r =
                bind_number (with_default (as_number (destructured (a_importance a) (JS (JNum 0.5))))
                  (Num 0.5))"
      unfolding memory_add_def Let_def using co ty im
      by (simp add: sid t assms(1) createMemory_def falsy_def Let_def)
  qed
qed

text \<open>
  C10 (amended).  \<open>memory_add\<close> validates at the tool boundary.  Called with an arguments
  object, it returns a result and does not throw.  When the content is missing, not a
  string or empty, or the type argument is given and is not one of the five types, or
  the importance argument is given and is not of type number or is a number below 0 or
  above 1, the result is \<open>ok: false\<close> with an error message and the table is left as it
  was.  When the content is a non-empty string, the type is absent or one of the five,
  and the importance is absent or a number of the unit interval, the result is
  \<open>ok: true\<close> and one row is added, unless the context is \<open>null\<close>; with a \<open>null\<close> context the
  result is \<open>ok: false\<close> and the table is left as it was.
\<close>

theorem memory_add_validates:
  "(\<exists>res rows'. memory_add ts now (Some a) ctx rows = Inr (res, rows')) \<and>
   ((\<forall>c. a_content a \<noteq> Some (JS (JStr c))) \<or> a_content a = Some (JS (JStr [])) \<or>
    (a_type a \<noteq> None \<and> \<not> (\<exists>t \<in> set memory_types. a_type a = Some (JS (JStr t)))) \<or>
    (a_importance a \<noteq> None \<and> a_importance a \<noteq> Some JSNaN \<and>
     \<not> (\<exists>v. a_importance a = Some (JS (JNum v)) \<and> 0 \<le> v \<and> v \<le> 1)) \<longrightarrow>
      (\<exists>msg. memory_add ts now (Some a) ctx rows =
         Inr (\<lparr> ok = False, res_content = JObj [(''error'', JStr msg)], res_metadata = None \<rparr>,
              rows))) \<and>
   ((\<exists>c. a_content a = Some (JS (JStr c)) \<and> c \<noteq> []) \<and>
    (a_type a = None \<or> (\<exists>t \<in> set memory_types. a_type a = Some (JS (JStr t)))) \<and>
    (a_importance a = None \<or> (\<exists>v. a_importance a = Some (JS (JNum v)) \<and> 0 \<le> v \<and> v \<le> 1)) \<longrightarrow>
      (ctx \<noteq> Null \<longrightarrow>
         (\<exists>res r. memory_add ts now (Some a) ctx rows = Inr (res, rows @ [r]) \<and> ok res)) \<and>
      (ctx = Null \<longrightarrow>
         (\<exists>res. memory_add ts now (Some a) ctx rows = Inr (res, rows) \<and> \<not> ok res)))"
proof (intro conjI impI)
  show "\<exists>res rows'. memory_add ts now (Some a) ctx rows = Inr (res, rows')"
    by (simp add: memory_add_def split_paired_Ex[symmetric])
next
  assume bad: "(\<forall>c. a_content a \<noteq> Some (JS (JStr c))) \<or> a_content a = Some (JS (JStr [])) \<or>
    (a_type a \<noteq> None \<and> \<not> (\<exists>t \<in> set memory_types. a_type a = Some (JS (JStr t)))) \<or>
    (a_importance a \<noteq> None \<and> a_importance a \<noteq> Some JSNaN \<and>
     \<not> (\<exists>v. a_importance a = Some (JS (JNum v)) \<and> 0 \<le> v \<and> v \<le> 1))"
  have "\<exists>msg. memory_add ts now (Some a) ctx rows = Inr (tool_error [(''error'', JStr msg)], rows)"
  proof (cases "\<exists>c. a_content a = Some (JS (JStr c)) \<and> c \<noteq> []")
    case False
    from memory_add_bad_content[OF this] show ?thesis by blast
  next
    case True
    then obtain c where c: "a_content a = Some (JS (JStr c))" "c \<noteq> []" by blast
    show ?thesis
    proof (cases "a_type a = None \<or> (\<exists>t \<in> set memory_types. a_type a = Some (JS (JStr t)))")
      case False
      then have "a_type a \<noteq> None"
        and "\<not> (\<exists>t \<in> set memory_types. a_type a = Some (JS (JStr t)))"
        by auto
      from memory_add_bad_type[OF c this] show ?thesis by blast
    next
      case tyok: True
      with bad c have imp: "a_importance a \<noteq> None" "a_importance a \<noteq> Some JSNaN"
        "\<not> (\<exists>v. a_importance a = Some (JS (JNum v)) \<and> 0 \<le> v \<and> v \<le> 1)"
        by auto
      from memory_add_bad_importance[OF c tyok imp] show ?thesis by blast
    qed
  qed
  then show "\<exists>msg. memory_add ts now (Some a) ctx rows =
         Inr (\<lparr> ok = False, res_content = JObj [(''error'', JStr msg)], res_metadata = None \<rparr>,
              rows)"
    by (simp add: tool_error_def)
next
  assume good: "(\<exists>c. a_content a = Some (JS (JStr c)) \<and> c \<noteq> []) \<and>
    (a_type a = None \<or> (\<exists>t \<in> set memory_types. a_type a = Some (JS (JStr t)))) \<and>
    (a_importance a = None \<or> (\<exists>v. a_importance a = Some (JS (JNum v)) \<and> 0 \<le> v \<and> v \<le> 1))"
    and ctx: "ctx \<noteq> Null"
  from good obtain c where c: "a_content a = Some (JS (JStr c))" "c \<noteq> []" by blast
  from good have ty: "a_type a = None \<or> (\<exists>t \<in> set memory_types. a_type a = Some (JS (JStr t)))"
    by blast
  from good have imp: "a_importance a = None \<or> a_importance a = Some JSNaN \<or>
      (\<exists>v. a_importance a = Some (JS (JNum v)) \<and> 0 \<le> v \<and> v \<le> 1)"
    by blast
  from memory_add_try(2)[OF c ty imp, of ctx ts now rows] ctx
  show "\<exists>res r. memory_add ts now (Some a) ctx rows = Inr (res, rows @ [r]) \<and> ok res"
    by blast
next
  assume good: "(\<exists>c. a_content a = Some (JS (JStr c)) \<and> c \<noteq> []) \<and>
    (a_type a = None \<or> (\<exists>t \<in> set memory_types. a_type a = Some (JS (JStr t)))) \<and>
    (a_importance a = None \<or> (\<exists>v. a_importance a = Some (JS (JNum v)) \<and> 0 \<le> v \<and> v \<le> 1))"
    and ctx: "ctx = Null"
  from good obtain c where c: "a_content a = Some (JS (JStr c))" "c \<noteq> []" by blast
  from good have ty: "a_type a = None \<or> (\<exists>t \<in> set memory_types. a_type a = Some (JS (JStr t)))"
    by blast
  from good have imp: "a_importance a = None \<or> a_importance a = Some JSNaN \<or>
      (\<exists>v. a_importance a = Some (JS (JNum v)) \<and> 0 \<le> v \<and> v \<le> 1)"
    by blast
  from memory_add_try(1)[OF c ty imp, of ctx ts now rows] ctx
  have "memory_add ts now (Some a) ctx rows =
      Inr (tool_error [(''error'', JStr ''Failed to add memory''),
                       (''message'', JStr (error_message TypeError))], rows)"
    by blast
  then show "\<exists>res. memory_add ts now (Some a) ctx rows = Inr (res, rows) \<and> \<not> ok res"
    by (simp add: tool_error_def)
qed

theorem memory_add_validates_witness:
  "memory_add 10 20 (Some bad_importance_args) Undefined session_rows =
     Inr (\<lparr> ok = False,
            res_content = JObj [(''error'', JStr ''Importance must be a number between 0 and 1'')],
            res_metadata = None \<rparr>, session_rows) \<and>
   (\<exists>msg. memory_add 10 20 (Some bad_type_args) Undefined session_rows =
      Inr (\<lparr> ok = False, res_content = JObj [(''error'', JStr msg)], res_metadata = None \<rparr>,
           session_rows)) \<and>
   (\<exists>msg. memory_add 10 20 (Some bad_content_args) Undefined session_rows =
      Inr (\<lparr> ok = False, res_content = JObj [(''error'', JStr msg)], res_metadata = None \<rparr>,
           session_rows)) \<and>
   (\<exists>res r. memory_add 10 20 (Some content_only_args) Undefined session_rows =
      Inr (res, session_rows @ [r]) \<and> ok res) \<and>
   (\<exists>res. memory_add 10 20 (Some content_only_args) Null session_rows = Inr (res, session_rows) \<and>
      \<not> ok res)"
proof -
  have bi: "memory_add 10 20 (Some bad_importance_args) Undefined session_rows =
     Inr (\<lparr> ok = False,
            res_content = JObj [(''error'', JStr ''Importance must be a number between 0 and 1'')],
            res_metadata = None \<rparr>, session_rows)"
    by (simp add: memory_add_def bad_importance_args_def content_only_args_def Let_def
        destructured_def memory_types_def tool_error_def)
  from memory_add_validates[of 10 20 bad_importance_args Undefined session_rows]
  have "\<exists>msg. memory_add 10 20 (Some bad_importance_args) Undefined session_rows =
      Inr (\<lparr> ok = False, res_content = JObj [(''error'', JStr msg)], res_metadata = None \<rparr>,
           session_rows)"
    by (simp add: bad_importance_args_def content_only_args_def memory_types_def)
  moreover from memory_add_validates[of 10 20 bad_type_args Undefined session_rows]
  have "\<exists>msg. memory_add 10 20 (Some bad_type_args) Undefined session_rows =
      Inr (\<lparr> ok = False, res_content = JObj [(''error'', JStr msg)], res_metadata = None \<rparr>,
           session_rows)"
    by (simp add: bad_type_args_def content_only_args_def memory_types_def)
  moreover from memory_add_validates[of 10 20 bad_content_args Undefined session_rows]
  have "\<exists>msg. memory_add 10 20 (Some bad_content_args) Undefined session_rows =
      Inr (\<lparr> ok = False, res_content = JObj [(''error'', JStr msg)], res_metadata = None \<rparr>,
           session_rows)"
    by (simp add: bad_content_args_def content_only_args_def memory_types_def)
  moreover from memory_add_validates[of 10 20 content_only_args Undefined session_rows]
  have "\<exists>res r. memory_add 10 20 (Some content_only_args) Undefined session_rows =
      Inr (res, session_rows @ [r]) \<and> ok res"
    by (simp add: content_only_args_def memory_types_def)
  moreover from memory_add_validates[of 10 20 content_only_args Null session_rows]
  have "\<exists>res. memory_add 10 20 (Some content_only_args) Null session_rows =
      Inr (res, session_rows) \<and> \<not> ok res"
    by (simp add: content_only_args_def memory_types_def)
  ultimately show ?thesis
    using bi by blast
qed

text \<open>
  C10 as stated fails.  Called with \<open>null\<close> or \<open>undefined\<close> for the arguments, \<open>memory_add\<close>
  throws a \<open>TypeError\<close> to its caller.  Called with the importance \<open>NaN\<close>, which is not a
  number of the unit interval, it returns \<open>ok: true\<close> and adds a memory, whose importance
  column is \<open>NULL\<close>.
\<close>

theorem memory_add_throws_counterexample:
  "memory_add 10 20 None Undefined session_rows = Inl TypeError \<and>
   (\<exists>res r. memory_add 10 20 (Some nan_importance_args) Undefined session_rows =
      Inr (res, session_rows @ [r]) \<and> ok res \<and> col_importance r = None)"
proof -
  have "memory_add 10 20 None Undefined session_rows = Inl TypeError"
    by (simp add: memory_add_def)
  moreover from memory_add_try(2)[of nan_importance_args "''User prefers tabs''" Undefined 10 20
      session_rows]
  have "\<exists>res r. memory_add 10 20 (Some nan_importance_args) Undefined session_rows =
      Inr (res, session_rows @ [r]) \<and> ok res \<and> col_content r = ''User prefers tabs'' \<and>
      col_importance r = None"
    by (simp add: nan_importance_args_def content_only_args_def destructured_def
        with_default_def bind_number_def)
  ultimately show ?thesis by blast
qed

section \<open>Properties of double-precision arithmetic\<close>

text \<open>Rounding to an integer, ties to even, is monotone and fixes the integers.\<close>

lemma round_half_even_bounds: "\<lfloor>y\<rfloor> \<le> round_half_even y \<and> round_half_even y \<le> \<lfloor>y\<rfloor> + 1"
  by (simp add: round_half_even_def Let_def)

lemma round_half_even_of_int [simp]: "round_half_even (of_int n) = n"
  by (simp add: round_half_even_def Let_def)

lemma round_half_even_mono:
  assumes "y \<le> z"
  shows "round_half_even y \<le> round_half_even z"
proof (cases "\<lfloor>y\<rfloor> = \<lfloor>z\<rfloor>")
  case True
  with assms show ?thesis
    by (auto simp: round_half_even_def Let_def)
next
  case False
  with assms have "\<lfloor>y\<rfloor> < \<lfloor>z\<rfloor>"
    using floor_mono[of y z] by linarith
  then show ?thesis
    using round_half_even_bounds[of y] round_half_even_bounds[of z] by linarith
qed

lemma round_half_even_ge_int: "of_int n \<le> y \<Longrightarrow> n \<le> round_half_even y"
  using round_half_even_mono[of "of_int n" y] by simp

lemma round_half_even_le_int: "y \<le> of_int n \<Longrightarrow> round_half_even y \<le> n"
  using round_half_even_mono[of y "of_int n"] by simp

lemma ulp_pos: "0 < ulp a"
  by (simp add: ulp_def)

lemma binade_mono: "0 < a \<Longrightarrow> a \<le> b \<Longrightarrow> binade a \<le> binade b"
  unfolding binade_def
  by (intro max.mono floor_mono) (auto simp: log_le_cancel_iff)

lemma below_next_binade:
  assumes "0 < a"
  shows "a < 2 powr (of_int (binade a) + 1)"
proof -
  have "log 2 a < of_int \<lfloor>log 2 a\<rfloor> + 1" by linarith
  also have "\<dots> \<le> of_int (binade a) + 1" by (simp add: binade_def)
  finally have "log 2 a < of_int (binade a) + 1" .
  then have "2 powr (log 2 a) < 2 powr (of_int (binade a) + 1)"
    by (simp add: powr_less_cancel_iff)
  with assms show ?thesis by simp
qed

lemma above_binade:
  assumes "0 < a" and "- 1022 < binade a"
  shows "2 powr (of_int (binade a)) \<le> a"
proof -
  from assms(2) have "binade a = \<lfloor>log 2 a\<rfloor>" by (auto simp: binade_def)
  then have "of_int (binade a) \<le> log 2 a" by simp
  then have "2 powr (of_int (binade a)) \<le> 2 powr (log 2 a)"
    by (simp add: powr_le_cancel_iff)
  with assms(1) show ?thesis by simp
qed

lemma powr_split_53: "(2::real) powr (e + 1) = 2 powr 53 * 2 powr (e - 52)"
proof -
  have "e + 1 = 53 + (e - 52)" by simp
  then have "(2::real) powr (e + 1) = 2 powr (53 + (e - 52))" by (rule arg_cong)
  also have "\<dots> = 2 powr 53 * 2 powr (e - 52)" by (rule powr_add)
  finally show ?thesis .
qed

lemma powr_split_52: "(2::real) powr e = 2 powr 52 * 2 powr (e - 52)"
proof -
  have "e = 52 + (e - 52)" by simp
  then have "(2::real) powr e = 2 powr (52 + (e - 52))" by (rule arg_cong)
  also have "\<dots> = 2 powr 52 * 2 powr (e - 52)" by (rule powr_add)
  finally show ?thesis .
qed

lemma round_magnitude_nonneg: "0 \<le> a \<Longrightarrow> 0 \<le> round_magnitude a"
proof -
  assume "0 \<le> a"
  then have "of_int 0 \<le> a / ulp a" using ulp_pos[of a] by simp
  then have "0 \<le> round_half_even (a / ulp a)" by (rule round_half_even_ge_int)
  then show ?thesis unfolding round_magnitude_def using ulp_pos[of a] by simp
qed

lemma round_magnitude_le_next:
  assumes "0 < a"
  shows "round_magnitude a \<le> 2 powr (of_int (binade a) + 1)"
proof -
  have "a / ulp a \<le> 2 powr 53"
  proof -
    have "a \<le> 2 powr (of_int (binade a) + 1)" using below_next_binade[OF assms] by simp
    also have "\<dots> = 2 powr 53 * ulp a"
      unfolding ulp_def by (rule powr_split_53)
    finally show ?thesis using ulp_pos[of a] by (simp add: pos_divide_le_eq)
  qed
  also have "(2::real) powr 53 = of_int (2 ^ 53)"
    by (simp add: powr_numeral)
  finally have "round_half_even (a / ulp a) \<le> 2 ^ 53" by (rule round_half_even_le_int)
  then have "of_int (round_half_even (a / ulp a)) \<le> (2::real) powr 53"
    by (simp add: powr_numeral)
  then have "round_magnitude a \<le> ulp a * 2 powr 53"
    unfolding round_magnitude_def using ulp_pos[of a] by (simp add: mult_left_mono)
  also have "\<dots> = 2 powr (of_int (binade a) + 1)"
    unfolding ulp_def using powr_split_53[of "of_int (binade a)"] by (simp only: mult.commute)
  finally show ?thesis .
qed

lemma round_magnitude_ge_binade:
  assumes "0 < a" and "- 1022 < binade a"
  shows "2 powr (of_int (binade a)) \<le> round_magnitude a"
proof -
  have "2 powr 52 \<le> a / ulp a"
  proof -
    have "2 powr 52 * ulp a = 2 powr (of_int (binade a))"
      unfolding ulp_def by (rule powr_split_52[symmetric])
    also have "\<dots> \<le> a" by (rule above_binade[OF assms])
    finally show ?thesis using ulp_pos[of a] by (simp add: pos_le_divide_eq)
  qed
  moreover have "(2::real) powr 52 = of_int (2 ^ 52)"
    by (simp add: powr_numeral)
  ultimately have "2 ^ 52 \<le> round_half_even (a / ulp a)"
    using round_half_even_ge_int[of "2 ^ 52" "a / ulp a"] by simp
  then have "(2::real) powr 52 \<le> of_int (round_half_even (a / ulp a))"
    by (simp add: powr_numeral)
  then have "ulp a * 2 powr 52 \<le> round_magnitude a"
    unfolding round_magnitude_def using ulp_pos[of a] by (simp add: mult_left_mono)
  moreover have "ulp a * 2 powr 52 = 2 powr (of_int (binade a))"
    unfolding ulp_def using powr_split_52[of "of_int (binade a)"] by (simp only: mult.commute)
  ultimately show ?thesis by simp
qed

lemma round_magnitude_mono:
  assumes "0 < a" and "a \<le> b"
  shows "round_magnitude a \<le> round_magnitude b"
proof (cases "binade a = binade b")
  case True
  then have u: "ulp a = ulp b" by (simp add: ulp_def)
  have "a / ulp b \<le> b / ulp b"
    using assms(2) ulp_pos[of b] by (simp add: divide_right_mono)
  then have "round_half_even (a / ulp b) \<le> round_half_even (b / ulp b)"
    by (rule round_half_even_mono)
  then show ?thesis
    unfolding round_magnitude_def u using ulp_pos[of b] by (simp add: mult_left_mono)
next
  case False
  with binade_mono[OF assms] have lt: "binade a < binade b" by simp
  have b0: "0 < b" using assms by simp
  have "- 1022 \<le> binade a" by (simp add: binade_def)
  with lt have nb: "- 1022 < binade b" by simp
  have "round_magnitude a \<le> 2 powr (of_int (binade a) + 1)"
    by (rule round_magnitude_le_next[OF assms(1)])
  also have "\<dots> \<le> 2 powr (of_int (binade b))"
    using lt by (simp add: powr_le_cancel_iff)
  also have "\<dots> \<le> round_magnitude b"
    by (rule round_magnitude_ge_binade[OF b0 nb])
  finally show ?thesis .
qed

lemma round_double_zero [simp]: "round_double 0 = 0"
  by (simp add: round_double_def)

lemma round_double_mono:
  assumes "x \<le> y"
  shows "round_double x \<le> round_double y"
proof -
  consider "0 < x" | "x = 0" | "x < 0" "0 \<le> y" | "x < 0" "y < 0" by linarith
  then show ?thesis
  proof cases
    case 1
    with assms show ?thesis
      by (simp add: round_double_def round_magnitude_mono)
  next
    case 2
    with assms round_magnitude_nonneg[of y] show ?thesis
      by (auto simp: round_double_def)
  next
    case 3
    have "round_double x \<le> 0"
      using 3(1) round_magnitude_nonneg[of "- x"] by (simp add: round_double_def)
    moreover have "0 \<le> round_double y"
      using 3(2) round_magnitude_nonneg[of y] by (auto simp: round_double_def)
    ultimately show ?thesis by simp
  next
    case 4
    then have "round_magnitude (- y) \<le> round_magnitude (- x)"
      using assms by (intro round_magnitude_mono) auto
    with 4 show ?thesis by (simp add: round_double_def)
  qed
qed

lemma binade_eq:
  assumes "2 powr (of_int e) \<le> a" and "a < 2 powr (of_int e + 1)" and "- 1022 \<le> e"
  shows "binade a = e"
proof -
  have a0: "0 < a" using assms(1) powr_gt_zero[of 2 "of_int e"] by linarith
  have "of_int e \<le> log 2 a" using assms(1) a0 by (simp add: le_log_iff)
  moreover have "log 2 a < of_int e + 1" using assms(2) a0 by (simp add: log_less_iff)
  ultimately have "\<lfloor>log 2 a\<rfloor> = e" by (simp add: floor_eq_iff)
  with assms(3) show ?thesis by (simp add: binade_def)
qed

lemma round_half_even_near:
  assumes "0 \<le> t" and "t < 1 / 2"
  shows "round_half_even (of_int n + t) = n"
proof -
  have "\<lfloor>of_int n + t\<rfloor> = n" using assms by (simp add: floor_eq_iff)
  then show ?thesis using assms by (simp add: round_half_even_def Let_def)
qed

lemma round_double_one [simp]: "round_double 1 = 1"
proof -
  have p0: "(2::real) powr (of_int 0) = 1" by simp
  have b: "binade 1 = 0"
    by (rule binade_eq) auto
  have u: "ulp 1 = 1 / 2 ^ 52" unfolding ulp_def b by (simp add: powr_minus powr_numeral inverse_eq_divide)
  have "(1::real) / (1 / 2 ^ 52) = of_int (2 ^ 52)" by simp
  then have "round_half_even (1 / ulp 1) = 2 ^ 52"
    unfolding u by (simp only: round_half_even_of_int)
  then have "round_magnitude 1 = 1"
    unfolding round_magnitude_def by (simp add: u)
  then show ?thesis by (simp add: round_double_def)
qed

lemma round_double_unit: "0 \<le> x \<Longrightarrow> x \<le> 1 \<Longrightarrow> 0 \<le> round_double x \<and> round_double x \<le> 1"
  using round_double_mono[of 0 x] round_double_mono[of x 1] by simp

lemma round_double_absorb_powr:
  assumes k: "- 1022 \<le> k" and t0: "0 \<le> t" and t1: "t < 2 powr (of_int k - 53)"
  shows "round_double (2 powr (of_int k) + t) = 2 powr (of_int k)"
proof -
  let ?p = "(2::real) powr (of_int k)"
  let ?y = "?p + t"
  have p0: "0 < ?p" by simp
  have y0: "0 < ?y" using t0 p0 by linarith
  have "(2::real) powr (of_int k - 53) \<le> ?p" by (simp add: powr_mono)
  with t1 have "?y < ?p + ?p" by linarith
  also have "?p + ?p = 2 powr (of_int k + 1)" by (simp add: powr_add)
  finally have up: "?y < 2 powr (of_int k + 1)" .
  have b: "binade ?y = k"
    by (rule binade_eq) (use t0 up k in auto)
  have u: "ulp ?y = 2 powr (of_int k - 52)" unfolding ulp_def b by simp
  have pu: "?p = 2 powr (of_int k - 52) * of_int (2 ^ 52)"
  proof -
    have "(2::real) powr (of_int k - 52) * 2 powr 52 = 2 powr (of_int k - 52 + 52)"
      by (simp only: powr_add)
    then show ?thesis by (simp add: powr_numeral)
  qed
  have half: "2 powr (of_int k - 53) = 2 powr (of_int k - 52) / (2::real)"
  proof -
    have "(2::real) powr (of_int k - 53) * 2 powr 1 = 2 powr (of_int k - 53 + 1)"
      by (simp only: powr_add)
    then show ?thesis by simp
  qed
  have q: "?y / 2 powr (of_int k - 52) = of_int (2 ^ 52) + t / 2 powr (of_int k - 52)"
    using pu by (simp add: add_divide_distrib)
  have "t / 2 powr (of_int k - 52) < 1 / 2"
    using t1 half by (simp add: pos_divide_less_eq)
  moreover have "0 \<le> t / 2 powr (of_int k - 52)" using t0 by simp
  ultimately have "round_half_even (of_int (2 ^ 52) + t / 2 powr (of_int k - 52)) = 2 ^ 52"
    by (intro round_half_even_near)
  then have "round_half_even (?y / ulp ?y) = 2 ^ 52" by (simp only: u q)
  then have "round_magnitude ?y = ?p"
    unfolding round_magnitude_def u using pu by simp
  with y0 show ?thesis by (simp add: round_double_def)
qed

lemma round_double_powr:
  "- 1022 \<le> k \<Longrightarrow> round_double (2 powr (of_int k)) = 2 powr (of_int k)"
  using round_double_absorb_powr[of k 0] by simp

lemma round_double_minus: "round_double (- x) = - round_double x"
  by (simp add: round_double_def)

lemma round_double_of_int_pos:
  assumes n0: "0 < n" and n1: "n < 2 ^ 53"
  shows "round_double (of_int n) = of_int n"
proof -
  let ?a = "of_int n :: real"
  have a1: "1 \<le> ?a" using n0 by simp
  have l0: "0 \<le> log 2 ?a" using a1 by simp
  have "?a < 2 ^ 53" using n1 by (metis of_int_less_numeral_power_cancel_iff)
  also have "(2::real) ^ 53 = 2 powr 53" by (simp add: powr_numeral)
  finally have l1: "log 2 ?a < 53" using a1 by (simp add: log_less_iff)
  define b where "b = \<lfloor>log 2 ?a\<rfloor>"
  have b0: "0 \<le> b" using l0 by (simp add: b_def)
  have b1: "b \<le> 52" using l1 by (simp add: b_def floor_le_iff)
  have bin: "binade ?a = b" using b0 by (simp add: binade_def b_def)
  define j where "j = nat (52 - b)"
  have jb: "of_int b - 52 = - real j" using b1 by (simp add: j_def)
  have u: "ulp ?a = 1 / 2 ^ j"
    unfolding ulp_def bin jb by (simp add: powr_minus powr_realpow inverse_eq_divide)
  have "?a / ulp ?a = of_int (n * 2 ^ j)" by (simp add: u)
  then have "round_half_even (?a / ulp ?a) = n * 2 ^ j"
    by (simp only: round_half_even_of_int)
  then have "round_magnitude ?a = ?a"
    unfolding round_magnitude_def by (simp add: u)
  then show ?thesis using n0 by (simp add: round_double_def)
qed

lemma round_double_of_int:
  assumes "\<bar>n\<bar> < 2 ^ 53"
  shows "round_double (of_int n) = of_int n"
proof -
  consider "n = 0" | "0 < n" | "n < 0" by linarith
  then show ?thesis
  proof cases
    case 1 then show ?thesis by simp
  next
    case 2 with assms show ?thesis by (intro round_double_of_int_pos) auto
  next
    case 3
    with assms have "round_double (of_int (- n)) = of_int (- n)"
      by (intro round_double_of_int_pos) auto
    then show ?thesis using round_double_minus[of "of_int n"] by simp
  qed
qed

lemma finite_double_mono:
  assumes "finite_double x = Some u" "finite_double y = Some v" "x \<le> y"
  shows "u \<le> v"
  using assms round_double_mono[of x y]
  by (auto simp: finite_double_def Let_def split: if_splits)

lemma max_double_large: "2 ^ 60 \<le> max_double"
proof -
  have "(2::real) powr (- 52) \<le> 2 powr 0" by (intro powr_mono) auto
  then have a: "1 \<le> 2 - (2::real) powr (- 52)" by simp
  have "(2::real) powr 60 \<le> 2 powr 1023" by (intro powr_mono) auto
  then have b: "(2::real) ^ 60 \<le> 2 powr 1023" by (simp add: powr_numeral)
  have "(2::real) ^ 60 = 1 * 2 ^ 60" by simp
  also have "\<dots> \<le> (2 - 2 powr (- 52)) * 2 powr 1023"
    using a b by (intro mult_mono) auto
  finally show ?thesis by (simp add: max_double_def)
qed

lemma finite_double_exact:
  assumes "round_double x = x" and "\<bar>x\<bar> \<le> 2 ^ 60"
  shows "finite_double x = Some x"
  using assms max_double_large by (simp add: finite_double_def)

lemma finite_double_bounded:
  assumes "- (2 ^ 60) \<le> x" "x \<le> 2 ^ 60"
  shows "finite_double x = Some (round_double x)"
proof -
  have p: "round_double (2 ^ 60) = 2 ^ 60"
    using round_double_powr[of 60] by (simp add: powr_numeral)
  from round_double_mono[OF assms(2)] p have "round_double x \<le> 2 ^ 60" by simp
  moreover from round_double_mono[OF assms(1)] p round_double_minus[of "2 ^ 60"]
  have "- (2 ^ 60) \<le> round_double x" by simp
  ultimately have "\<bar>round_double x\<bar> \<le> max_double" using max_double_large by linarith
  then show ?thesis by (simp add: finite_double_def)
qed

lemma exp_le_powr:
  assumes "x \<le> - (64::real)"
  shows "exp x \<le> 2 powr (- 64)"
proof -
  have "2 \<le> exp (1::real)" using exp_ge_add_one_self[of 1] by simp
  then have "(2::real) ^ 64 \<le> exp 1 ^ 64" by (intro power_mono) auto
  also have "exp (1::real) ^ 64 = exp 64" using exp_of_nat_mult[of 64 "1::real"] by simp
  finally have "(2::real) ^ 64 \<le> exp 64" .
  then have "inverse (exp (64::real)) \<le> inverse (2 ^ 64)" by (intro le_imp_inverse_le) auto
  moreover have "exp x \<le> exp (- 64)" using assms by simp
  moreover have "exp (- 64 :: real) = inverse (exp 64)" by (simp add: exp_minus)
  moreover have "(2::real) powr (- 64) = inverse (2 ^ 64)" by (simp add: powr_minus powr_numeral)
  ultimately show ?thesis by simp
qed

lemma finite_double_exact_value:
  assumes "round_double x = r" and "\<bar>r\<bar> \<le> 1"
  shows "finite_double x = Some r"
proof -
  have "(1::real) \<le> 2 ^ 60" by simp
  with assms max_double_large have "\<bar>r\<bar> \<le> max_double" by linarith
  with assms(1) show ?thesis by (simp add: finite_double_def)
qed

lemma finite_double_powr:
  assumes "- 1022 \<le> k" "k \<le> 60"
  shows "finite_double (2 powr (of_int k)) = Some (2 powr (of_int k))"
proof -
  have "(2::real) powr (of_int k) \<le> 2 powr 60" using assms by (intro powr_mono) auto
  then have "\<bar>(2::real) powr (of_int k)\<bar> \<le> 2 ^ 60" by (simp add: powr_numeral)
  with round_double_powr[OF assms(1)] show ?thesis by (rule finite_double_exact)
qed

lemma finite_double_zero [simp]: "finite_double 0 = Some 0"
  by (rule finite_double_exact) simp_all

lemma finite_double_one [simp]: "finite_double 1 = Some 1"
  by (rule finite_double_exact) simp_all

lemma finite_double_half [simp]: "finite_double (1 / 2) = Some (1 / 2)"
  using finite_double_powr[of "- 1"] by (simp add: powr_minus inverse_eq_divide)

lemma finite_double_quarter [simp]: "finite_double (1 / 4) = Some (1 / 4)"
proof -
  have "(2::real) powr (- 2) = 1 / 4" by (simp add: powr_minus powr_numeral inverse_eq_divide)
  with finite_double_powr[of "- 2"] show ?thesis by simp
qed

lemma finite_double_range:
  assumes "0 \<le> x" and "x \<le> of_int n" and "0 \<le> n" and "n \<le> 4"
  shows "finite_double x = Some (round_double x) \<and> 0 \<le> round_double x \<and> round_double x \<le> of_int n"
proof -
  have "\<bar>n\<bar> < 2 ^ 53" using assms(3,4) by simp
  then have n: "round_double (of_int n) = of_int n" by (rule round_double_of_int)
  have "real_of_int n \<le> 2 ^ 60" using assms(4) by simp
  with assms(1,2) have "finite_double x = Some (round_double x)"
    by (intro finite_double_bounded) simp_all
  moreover have "0 \<le> round_double x" using round_double_mono[OF assms(1)] by simp
  moreover have "round_double x \<le> of_int n" using round_double_mono[OF assms(2)] n by simp
  ultimately show ?thesis by simp
qed

lemma unit_product:
  fixes a b :: real
  assumes "0 \<le> a" "a \<le> 1" "0 \<le> b" "b \<le> 1"
  shows "0 \<le> a * b \<and> a * b \<le> of_int 1"
  using assms mult_mono[of a 1 b 1] by simp

section \<open>Properties of the retriever\<close>

lemma calculateKeywordOverlap_unit:
  "0 \<le> calculateKeywordOverlap kw c q \<and> calculateKeywordOverlap kw c q \<le> 1"
proof (cases "length (kw q) = 0 \<or> card (set (kw c)) = 0")
  case True
  then show ?thesis by (simp add: calculateKeywordOverlap_def Let_def)
next
  case False
  have "length (filter (\<lambda>k. k \<in> set (kw c)) (kw q)) \<le> length (kw q)" by simp
  then have "real (length (filter (\<lambda>k. k \<in> set (kw c)) (kw q))) / real (length (kw q)) \<le> 1"
    using False by (simp add: divide_le_eq_1)
  moreover have "0 \<le> real (length (filter (\<lambda>k. k \<in> set (kw c)) (kw q))) / real (length (kw q))"
    by simp
  ultimately show ?thesis
    using False round_double_unit
    by (simp add: calculateKeywordOverlap_def Let_def)
qed

lemma length_filter_mono:
  "(\<And>x. P x \<Longrightarrow> Q x) \<Longrightarrow> length (filter P xs) \<le> length (filter Q xs)"
  by (induction xs) auto

lemma calculateKeywordOverlap_mono:
  assumes "set (kw c) \<subseteq> set (kw c')"
  shows "calculateKeywordOverlap kw c q \<le> calculateKeywordOverlap kw c' q"
proof (cases "kw q = [] \<or> kw c = []")
  case True
  then have "calculateKeywordOverlap kw c q = 0"
    by (auto simp: calculateKeywordOverlap_def Let_def)
  then show ?thesis using calculateKeywordOverlap_unit[of kw c' q] by simp
next
  case False
  with assms have ne: "kw c' \<noteq> []" by auto
  have "length (filter (\<lambda>k. k \<in> set (kw c)) (kw q)) \<le> length (filter (\<lambda>k. k \<in> set (kw c')) (kw q))"
    using assms by (intro length_filter_mono) auto
  then have "real (length (filter (\<lambda>k. k \<in> set (kw c)) (kw q))) / real (length (kw q))
      \<le> real (length (filter (\<lambda>k. k \<in> set (kw c')) (kw q))) / real (length (kw q))"
    by (intro divide_right_mono) auto
  from round_double_mono[OF this] False ne show ?thesis
    by (simp add: calculateKeywordOverlap_def Let_def)
qed

lemma calculateRetrievalScore_Some:
  "calculateRetrievalScore Math_exp kw now m q w = Some s \<longleftrightarrow>
   (\<exists>age x rec a b ab c.
      sub_d (of_int now) (of_int (or_else (lastAccessedAt m) (createdAt m))) = Some age \<and>
      div_d (- age) (7 * 24 * 60 * 60 * 1000) = Some x \<and>
      Math_exp x = Some rec \<and>
      mul_d (recencyWeight w) rec = Some a \<and>
      mul_d (importanceWeight w) (importance m) = Some b \<and>
      add_d a b = Some ab \<and>
      mul_d (relevanceWeight w) (calculateKeywordOverlap kw (content m) q) = Some c \<and>
      add_d ab c = Some s)"
  unfolding calculateRetrievalScore_def Let_def bind_eq_Some_conv
  by blast

text \<open>The score is monotone in the three signals.\<close>

lemma calculateRetrievalScore_mono_general:
  assumes w: "0 \<le> recencyWeight w" "0 \<le> importanceWeight w" "0 \<le> relevanceWeight w"
    and s: "calculateRetrievalScore Math_exp kw now m q w = Some s"
    and s': "calculateRetrievalScore Math_exp kw now m' q w = Some s'"
    and t: "or_else (lastAccessedAt m) (createdAt m) \<le> or_else (lastAccessedAt m') (createdAt m')"
    and e: "or_else (lastAccessedAt m) (createdAt m) = or_else (lastAccessedAt m') (createdAt m') \<or>
            (\<forall>a b u v. a \<le> b \<and> Math_exp a = Some u \<and> Math_exp b = Some v \<longrightarrow> u \<le> v)"
    and i: "importance m \<le> importance m'"
    and r: "calculateKeywordOverlap kw (content m) q \<le> calculateKeywordOverlap kw (content m') q"
  shows "s \<le> s'"
proof -
  let ?t = "or_else (lastAccessedAt m) (createdAt m)"
  let ?t' = "or_else (lastAccessedAt m') (createdAt m')"
  from s obtain age x rec a b ab c where
    age: "sub_d (of_int now) (of_int ?t) = Some age"
    and x: "div_d (- age) (7 * 24 * 60 * 60 * 1000) = Some x"
    and rec: "Math_exp x = Some rec"
    and a: "mul_d (recencyWeight w) rec = Some a"
    and b: "mul_d (importanceWeight w) (importance m) = Some b"
    and ab: "add_d a b = Some ab"
    and c: "mul_d (relevanceWeight w) (calculateKeywordOverlap kw (content m) q) = Some c"
    and fin: "add_d ab c = Some s"
    unfolding calculateRetrievalScore_Some by blast
  from s' obtain age' x' rec' a' b' ab' c' where
    age': "sub_d (of_int now) (of_int ?t') = Some age'"
    and x': "div_d (- age') (7 * 24 * 60 * 60 * 1000) = Some x'"
    and rec': "Math_exp x' = Some rec'"
    and a': "mul_d (recencyWeight w) rec' = Some a'"
    and b': "mul_d (importanceWeight w) (importance m') = Some b'"
    and ab': "add_d a' b' = Some ab'"
    and c': "mul_d (relevanceWeight w) (calculateKeywordOverlap kw (content m') q) = Some c'"
    and fin': "add_d ab' c' = Some s'"
    unfolding calculateRetrievalScore_Some by blast
  have "rec \<le> rec'"
  proof (cases "?t = ?t'")
    case True
    with age age' x x' rec rec' show ?thesis by simp
  next
    case False
    with e have mono: "\<And>a b u v. a \<le> b \<Longrightarrow> Math_exp a = Some u \<Longrightarrow> Math_exp b = Some v \<Longrightarrow> u \<le> v"
      by blast
    have "age' \<le> age"
      by (rule finite_double_mono[OF age'[unfolded sub_d_def] age[unfolded sub_d_def]])
        (use t in simp)
    then have "x \<le> x'"
      by (intro finite_double_mono[OF x[unfolded div_d_def] x'[unfolded div_d_def]]
          divide_right_mono) simp_all
    then show ?thesis using rec rec' by (rule mono)
  qed
  then have "a \<le> a'"
    by (intro finite_double_mono[OF a[unfolded mul_d_def] a'[unfolded mul_d_def]]
        mult_left_mono w)
  moreover have "b \<le> b'"
    by (intro finite_double_mono[OF b[unfolded mul_d_def] b'[unfolded mul_d_def]]
        mult_left_mono w i)
  ultimately have "ab \<le> ab'"
    by (intro finite_double_mono[OF ab[unfolded add_d_def] ab'[unfolded add_d_def]] add_mono)
  moreover have "c \<le> c'"
    by (intro finite_double_mono[OF c[unfolded mul_d_def] c'[unfolded mul_d_def]]
        mult_left_mono w r)
  ultimately show ?thesis
    by (intro finite_double_mono[OF fin[unfolded add_d_def] fin'[unfolded add_d_def]] add_mono)
qed

text \<open>
  A memory last used between 64 and 1024 weeks ago: its recency term is below half an
  ulp of the importance term and the sum of the two is the importance term.
\<close>

lemma old_memory_score:
  assumes t: "or_else (lastAccessedAt m) (createdAt m) = t"
    and old: "64 * (7 * day) \<le> now - t" and young: "now - t \<le> 1024 * (7 * day)"
    and rw: "0 \<le> recencyWeight w" "recencyWeight w \<le> 1"
    and iwp: "importanceWeight w * importance m = p"
    and p: "p = 2 powr (of_int k)" and k: "- 10 \<le> k" "k \<le> 0"
  shows "calculateRetrievalScore exp_nearest kw now m q w =
           do { relevanceTerm \<leftarrow> mul_d (relevanceWeight w) (calculateKeywordOverlap kw (content m) q);
                add_d p relevanceTerm }"
proof -
  from iwp p have iw: "importanceWeight w * importance m = 2 powr (of_int k)" by simp
  define d where "d = now - t"
  let ?H = "7 * 24 * 60 * 60 * 1000 :: real"
  have d0: "64 * 604800000 \<le> d" and d1: "d \<le> 1024 * 604800000"
    using old young by (simp_all add: d_def day_def)
  have "\<bar>d\<bar> < 2 ^ 53" using d0 d1 by simp
  then have rd: "round_double (of_int d) = of_int d" by (rule round_double_of_int)
  have "\<bar>real_of_int d\<bar> \<le> 2 ^ 60" using d0 d1 by simp
  with rd have "finite_double (of_int d) = Some (of_int d)" by (rule finite_double_exact)
  then have age: "sub_d (of_int now) (of_int (or_else (lastAccessedAt m) (createdAt m))) = Some (of_int d)"
    by (simp add: sub_d_def t d_def)
  define x where "x = round_double (- real_of_int d / ?H)"
  have q0: "- real_of_int d / ?H \<le> - 64" using d0 by simp
  have q1: "- 1024 \<le> - real_of_int d / ?H" using d1 by simp
  have "finite_double (- real_of_int d / ?H) = Some x"
    unfolding x_def using q0 q1 by (intro finite_double_bounded) simp_all
  then have xe: "div_d (- real_of_int d) ?H = Some x" by (simp only: div_d_def)
  have "round_double (64::real) = 64" using round_double_powr[of 6] by (simp add: powr_numeral)
  then have "round_double (- 64 :: real) = - 64" using round_double_minus[of 64] by simp
  with round_double_mono[OF q0] have x64: "x \<le> - 64" by (simp add: x_def)
  define E where "E = round_double (exp x)"
  have e1: "exp x \<le> 2 powr (- 64)" by (rule exp_le_powr[OF x64])
  have p64: "round_double (2 powr (- 64)) = 2 powr (- 64)" using round_double_powr[of "- 64"] by simp
  have small: "(2::real) powr (- 64) \<le> 1" using powr_mono[of "- 64" 0 "2::real"] by simp
  have E0: "0 \<le> E" using round_double_mono[of 0 "exp x"] by (simp add: E_def)
  have E1: "E \<le> 2 powr (- 64)" using round_double_mono[OF e1] p64 by (simp add: E_def)
  have "finite_double (exp x) = Some E"
    unfolding E_def using e1 small by (intro finite_double_bounded) (auto intro: order_trans[of _ 0])
  then have rec: "exp_nearest x = Some E" by (simp add: exp_nearest_def)
  define a where "a = round_double (recencyWeight w * E)"
  have m0: "0 \<le> recencyWeight w * E" using rw E0 by simp
  have "recencyWeight w * E \<le> 1 * 2 powr (- 64)" using rw E0 E1 by (intro mult_mono) auto
  then have m1: "recencyWeight w * E \<le> 2 powr (- 64)" by simp
  have a0: "0 \<le> a" using round_double_mono[OF m0] by (simp add: a_def)
  have a1: "a \<le> 2 powr (- 64)" using round_double_mono[OF m1] p64 by (simp add: a_def)
  have "finite_double (recencyWeight w * E) = Some a"
    unfolding a_def using m0 m1 small by (intro finite_double_bounded) (auto intro: order_trans[of _ 0])
  then have ae: "mul_d (recencyWeight w) E = Some a" by (simp only: mul_d_def)
  have be: "mul_d (importanceWeight w) (importance m) = Some (2 powr (of_int k))"
    unfolding mul_d_def iw using k by (intro finite_double_powr) auto
  have "(2::real) powr (- 64) < 2 powr (of_int k - 53)" using k by (intro powr_less_mono) auto
  with a1 have "a < 2 powr (of_int k - 53)" by (rule le_less_trans)
  with a0 k have "round_double (2 powr (of_int k) + a) = 2 powr (of_int k)"
    by (intro round_double_absorb_powr) auto
  moreover have "(2::real) powr (of_int k) \<le> 2 powr 0" using k by (intro powr_mono) auto
  ultimately have "finite_double (a + 2 powr (of_int k)) = Some (2 powr (of_int k))"
    by (intro finite_double_exact_value) (simp_all add: add.commute)
  then have abe: "add_d a (2 powr (of_int k)) = Some (2 powr (of_int k))" by (simp only: add_d_def)
  show ?thesis
    unfolding calculateRetrievalScore_def Let_def p
    by (simp only: age xe rec ae be abe bind.bind_lunit)
qed

lemma exp_nearest_mono:
  "a \<le> b \<Longrightarrow> exp_nearest a = Some u \<Longrightarrow> exp_nearest b = Some v \<Longrightarrow> u \<le> v"
  unfolding exp_nearest_def by (rule finite_double_mono[of "exp a" u "exp b" v]) simp_all

lemma fresh_memory_score:
  assumes "or_else (lastAccessedAt m) (createdAt m) = now"
  shows "calculateRetrievalScore exp_nearest kw now m q w =
           do { recencyTerm \<leftarrow> mul_d (recencyWeight w) 1;
                importanceTerm \<leftarrow> mul_d (importanceWeight w) (importance m);
                partial \<leftarrow> add_d recencyTerm importanceTerm;
                relevanceTerm \<leftarrow> mul_d (relevanceWeight w) (calculateKeywordOverlap kw (content m) q);
                add_d partial relevanceTerm }"
  using assms
  by (simp add: calculateRetrievalScore_def sub_d_def div_d_def exp_nearest_def)

lemma overlap_other: "calculateKeywordOverlap whole_text_keyword ''JavaScript'' ''Python'' = 0"
  by (simp add: calculateKeywordOverlap_def whole_text_keyword_def)

lemma overlap_same: "calculateKeywordOverlap whole_text_keyword ''Python'' ''Python'' = 1"
  by (simp add: calculateKeywordOverlap_def whole_text_keyword_def)

lemma powr_minus_one: "(2::real) powr (of_int (- 1)) = 1 / 2"
  by (simp add: powr_minus inverse_eq_divide)

lemma powr_minus_two: "(2::real) powr (of_int (- 2)) = 1 / 4"
  by (simp add: powr_minus powr_numeral inverse_eq_divide)

lemma score_old:
  "calculateRetrievalScore exp_nearest whole_text_keyword (730 * day) scored_memory ''Python''
     example_weights = Some (1 / 4)"
  using old_memory_score[of scored_memory "100 * day" "730 * day" example_weights "1 / 4" "- 2"
      whole_text_keyword "''Python''", OF _ _ _ _ _ _ powr_minus_two[symmetric]]
  by (simp add: scored_memory_def example_weights_def or_else_def day_def overlap_other
      mul_d_def add_d_def)

text \<open>
  On the usual range the score is a finite number: weights and importance in the unit
  interval, a memory used not after \<open>now\<close>, time stamps below \<open>2^53\<close>.
\<close>

lemma calculateRetrievalScore_finite:
  assumes rw: "0 \<le> recencyWeight w" "recencyWeight w \<le> 1"
    and iw: "0 \<le> importanceWeight w" "importanceWeight w \<le> 1"
    and lw: "0 \<le> relevanceWeight w" "relevanceWeight w \<le> 1"
    and im: "0 \<le> importance m" "importance m \<le> 1"
    and t: "or_else (lastAccessedAt m) (createdAt m) \<le> now"
           "now - or_else (lastAccessedAt m) (createdAt m) < 2 ^ 53"
  shows "\<exists>s. calculateRetrievalScore exp_nearest kw now m q w = Some s \<and> 0 \<le> s \<and> s \<le> 3"
proof -
  define d where "d = now - or_else (lastAccessedAt m) (createdAt m)"
  let ?H = "7 * 24 * 60 * 60 * 1000 :: real"
  have d0: "0 \<le> d" and d1: "d < 2 ^ 53" using t by (simp_all add: d_def)
  have "\<bar>d\<bar> < 2 ^ 53" using d0 d1 by simp
  then have rd: "round_double (of_int d) = of_int d" by (rule round_double_of_int)
  have "real_of_int d < 2 ^ 53" using d1 by (metis of_int_less_numeral_power_cancel_iff)
  then have dr: "\<bar>real_of_int d\<bar> \<le> 2 ^ 60" using d0 by simp
  with rd have "finite_double (of_int d) = Some (of_int d)" by (rule finite_double_exact)
  then have age: "sub_d (of_int now) (of_int (or_else (lastAccessedAt m) (createdAt m))) = Some (of_int d)"
    by (simp add: sub_d_def d_def)
  define x where "x = round_double (- real_of_int d / ?H)"
  have q0: "- real_of_int d / ?H \<le> 0" using d0 by simp
  have "real_of_int d / ?H \<le> real_of_int d" using d0 by (simp add: divide_le_eq)
  with dr have q1: "- (2 ^ 60) \<le> - real_of_int d / ?H" by simp
  have "finite_double (- real_of_int d / ?H) = Some x"
    unfolding x_def using q0 q1 by (intro finite_double_bounded) simp_all
  then have xe: "div_d (- real_of_int d) ?H = Some x" by (simp only: div_d_def)
  have x0: "x \<le> 0" using round_double_mono[OF q0] by (simp add: x_def)
  define E where "E = round_double (exp x)"
  have "0 \<le> exp x \<and> exp x \<le> of_int 1" using x0 by simp
  then have Ef: "finite_double (exp x) = Some E \<and> 0 \<le> E \<and> E \<le> of_int 1"
    unfolding E_def by (intro finite_double_range) simp_all
  then have rec: "exp_nearest x = Some E" by (simp add: exp_nearest_def)
  define a where "a = round_double (recencyWeight w * E)"
  have "0 \<le> recencyWeight w * E \<and> recencyWeight w * E \<le> of_int 1"
    using rw Ef by (intro unit_product) simp_all
  then have af: "finite_double (recencyWeight w * E) = Some a \<and> 0 \<le> a \<and> a \<le> of_int 1"
    unfolding a_def by (intro finite_double_range) simp_all
  then have ae: "mul_d (recencyWeight w) E = Some a" by (simp only: mul_d_def)
  define b where "b = round_double (importanceWeight w * importance m)"
  have "0 \<le> importanceWeight w * importance m \<and> importanceWeight w * importance m \<le> of_int 1"
    using iw im by (intro unit_product)
  then have bf: "finite_double (importanceWeight w * importance m) = Some b \<and> 0 \<le> b \<and> b \<le> of_int 1"
    unfolding b_def by (intro finite_double_range) simp_all
  then have be: "mul_d (importanceWeight w) (importance m) = Some b" by (simp only: mul_d_def)
  define ab where "ab = round_double (a + b)"
  have "0 \<le> a + b \<and> a + b \<le> of_int 2" using af bf by simp
  then have abf: "finite_double (a + b) = Some ab \<and> 0 \<le> ab \<and> ab \<le> of_int 2"
    unfolding ab_def by (intro finite_double_range) simp_all
  then have abe: "add_d a b = Some ab" by (simp only: add_d_def)
  define c where "c = round_double (relevanceWeight w * calculateKeywordOverlap kw (content m) q)"
  have "0 \<le> relevanceWeight w * calculateKeywordOverlap kw (content m) q \<and>
        relevanceWeight w * calculateKeywordOverlap kw (content m) q \<le> of_int 1"
    using lw calculateKeywordOverlap_unit[of kw "content m" q] by (intro unit_product) simp_all
  then have cf: "finite_double (relevanceWeight w * calculateKeywordOverlap kw (content m) q) = Some c \<and>
      0 \<le> c \<and> c \<le> of_int 1"
    unfolding c_def by (intro finite_double_range) simp_all
  then have ce: "mul_d (relevanceWeight w) (calculateKeywordOverlap kw (content m) q) = Some c"
    by (simp only: mul_d_def)
  have "0 \<le> ab + c \<and> ab + c \<le> of_int 3" using abf cf by simp
  then have sf: "finite_double (ab + c) = Some (round_double (ab + c)) \<and>
      0 \<le> round_double (ab + c) \<and> round_double (ab + c) \<le> of_int 3"
    by (intro finite_double_range) simp_all
  then have se: "add_d ab c = Some (round_double (ab + c))" by (simp only: add_d_def)
  have "calculateRetrievalScore exp_nearest kw now m q w = Some (round_double (ab + c))"
    unfolding calculateRetrievalScore_def Let_def
    by (simp only: age xe rec ae be abe ce se bind.bind_lunit)
  with sf show ?thesis by simp
qed


text \<open>Scores of the examples.\<close>

lemma score_old_later:
  "calculateRetrievalScore exp_nearest whole_text_keyword (730 * day)
     (scored_memory\<lparr> createdAt := 101 * day \<rparr>) ''Python'' example_weights = Some (1 / 4)"
  using old_memory_score[of "scored_memory\<lparr> createdAt := 101 * day \<rparr>" "101 * day" "730 * day"
      example_weights "1 / 4" "- 2" whole_text_keyword "''Python''",
      OF _ _ _ _ _ _ powr_minus_two[symmetric]]
  by (simp add: scored_memory_def example_weights_def or_else_def day_def overlap_other
      mul_d_def add_d_def)

lemma score_fresh:
  "calculateRetrievalScore exp_nearest whole_text_keyword (730 * day)
     (scored_memory\<lparr> createdAt := 730 * day \<rparr>) ''Python'' example_weights = Some (1 / 2)"
  using fresh_memory_score[of "scored_memory\<lparr> createdAt := 730 * day \<rparr>" "730 * day"
      whole_text_keyword "''Python''" example_weights]
  by (simp add: scored_memory_def example_weights_def or_else_def overlap_other
      mul_d_def add_d_def)

lemma score_important:
  "calculateRetrievalScore exp_nearest whole_text_keyword (730 * day)
     (scored_memory\<lparr> importance := 1 \<rparr>) ''Python'' example_weights = Some (1 / 2)"
  using old_memory_score[of "scored_memory\<lparr> importance := 1 \<rparr>" "100 * day" "730 * day"
      example_weights "1 / 2" "- 1" whole_text_keyword "''Python''",
      OF _ _ _ _ _ _ powr_minus_one[symmetric]]
  by (simp add: scored_memory_def example_weights_def or_else_def day_def overlap_other
      mul_d_def add_d_def)

lemma score_relevant:
  "calculateRetrievalScore exp_nearest whole_text_keyword (730 * day)
     (scored_memory\<lparr> content := ''Python'' \<rparr>) ''Python'' example_weights = Some (1 / 2)"
  using old_memory_score[of "scored_memory\<lparr> content := ''Python'' \<rparr>" "100 * day" "730 * day"
      example_weights "1 / 4" "- 2" whole_text_keyword "''Python''",
      OF _ _ _ _ _ _ powr_minus_two[symmetric]]
  by (simp add: scored_memory_def example_weights_def or_else_def day_def overlap_same
      mul_d_def add_d_def)

lemma score_accessed_old:
  "calculateRetrievalScore exp_nearest whole_text_keyword (730 * day)
     (scored_memory\<lparr> lastAccessedAt := Some (200 * day) \<rparr>) ''Python'' example_weights = Some (1 / 4)"
  using old_memory_score[of "scored_memory\<lparr> lastAccessedAt := Some (200 * day) \<rparr>" "200 * day"
      "730 * day" example_weights "1 / 4" "- 2" whole_text_keyword "''Python''",
      OF _ _ _ _ _ _ powr_minus_two[symmetric]]
  by (simp add: scored_memory_def example_weights_def or_else_def day_def overlap_other
      mul_d_def add_d_def)

lemma score_accessed_now:
  "calculateRetrievalScore exp_nearest whole_text_keyword (730 * day)
     (scored_memory\<lparr> lastAccessedAt := Some (730 * day) \<rparr>) ''Python'' example_weights = Some (1 / 2)"
  using fresh_memory_score[of "scored_memory\<lparr> lastAccessedAt := Some (730 * day) \<rparr>" "730 * day"
      whole_text_keyword "''Python''" example_weights]
  by (simp add: scored_memory_def example_weights_def or_else_def day_def overlap_other
      mul_d_def add_d_def)

lemma score_zero_weight:
  "calculateRetrievalScore exp_nearest whole_text_keyword (100 * day)
     (scored_memory\<lparr> importance := i \<rparr>) ''Python'' zero_importance_weights = Some (1 / 2)"
  using fresh_memory_score[of "scored_memory\<lparr> importance := i \<rparr>" "100 * day"
      whole_text_keyword "''Python''" zero_importance_weights]
  by (simp add: scored_memory_def zero_importance_weights_def or_else_def day_def overlap_other
      mul_d_def add_d_def)

text \<open>
  C5 (amended).  With non-negative weights \<open>calculateRetrievalScore\<close> never decreases in a
  signal, every other field, the query, the weights and the clock held fixed: when both
  scores are finite numbers, the score after the change is at least the score before,
  when \<open>createdAt\<close> (when no last access is recorded) or \<open>lastAccessedAt\<close> (when one is)
  moves to a later time not after \<open>now\<close> and \<open>Math.exp\<close> is monotone, when the importance
  increases, or when the content changes so that its keyword overlap with the query
  increases.  The score need not increase: the change may be lost in the rounding of a
  product or a sum, and a weight may be 0.
\<close>

theorem calculateRetrievalScore_monotone:
  assumes "0 \<le> recencyWeight w" and "0 \<le> importanceWeight w" and "0 \<le> relevanceWeight w"
    and "calculateRetrievalScore Math_exp kw now m q w = Some s"
  shows
   "(lastAccessedAt m = None \<and> createdAt m \<le> t' \<and> t' \<le> now \<and>
     (\<forall>a b u v. a \<le> b \<and> Math_exp a = Some u \<and> Math_exp b = Some v \<longrightarrow> u \<le> v) \<and>
     calculateRetrievalScore Math_exp kw now (m\<lparr> createdAt := t' \<rparr>) q w = Some s' \<longrightarrow>
       s \<le> s') \<and>
    (lastAccessedAt m = Some t \<and> 0 < t \<and> t \<le> t' \<and> t' \<le> now \<and>
     (\<forall>a b u v. a \<le> b \<and> Math_exp a = Some u \<and> Math_exp b = Some v \<longrightarrow> u \<le> v) \<and>
     calculateRetrievalScore Math_exp kw now (m\<lparr> lastAccessedAt := Some t' \<rparr>) q w = Some s' \<longrightarrow>
       s \<le> s') \<and>
    (importance m \<le> i' \<and>
     calculateRetrievalScore Math_exp kw now (m\<lparr> importance := i' \<rparr>) q w = Some s' \<longrightarrow>
       s \<le> s') \<and>
    (calculateKeywordOverlap kw (content m) q \<le> calculateKeywordOverlap kw c' q \<and>
     calculateRetrievalScore Math_exp kw now (m\<lparr> content := c' \<rparr>) q w = Some s' \<longrightarrow>
       s \<le> s')"
proof (intro conjI impI)
  assume h: "lastAccessedAt m = None \<and> createdAt m \<le> t' \<and> t' \<le> now \<and>
     (\<forall>a b u v. a \<le> b \<and> Math_exp a = Some u \<and> Math_exp b = Some v \<longrightarrow> u \<le> v) \<and>
     calculateRetrievalScore Math_exp kw now (m\<lparr> createdAt := t' \<rparr>) q w = Some s'"
  then have s': "calculateRetrievalScore Math_exp kw now (m\<lparr> createdAt := t' \<rparr>) q w = Some s'"
    and mono: "\<forall>a b u v. a \<le> b \<and> Math_exp a = Some u \<and> Math_exp b = Some v \<longrightarrow> u \<le> v"
    by blast+
  show "s \<le> s'"
    by (rule calculateRetrievalScore_mono_general[OF assms s' _ disjI2[OF mono]])
      (use h in \<open>simp_all add: or_else_def\<close>)
next
  assume h: "lastAccessedAt m = Some t \<and> 0 < t \<and> t \<le> t' \<and> t' \<le> now \<and>
     (\<forall>a b u v. a \<le> b \<and> Math_exp a = Some u \<and> Math_exp b = Some v \<longrightarrow> u \<le> v) \<and>
     calculateRetrievalScore Math_exp kw now (m\<lparr> lastAccessedAt := Some t' \<rparr>) q w = Some s'"
  then have s': "calculateRetrievalScore Math_exp kw now (m\<lparr> lastAccessedAt := Some t' \<rparr>) q w = Some s'"
    and mono: "\<forall>a b u v. a \<le> b \<and> Math_exp a = Some u \<and> Math_exp b = Some v \<longrightarrow> u \<le> v"
    by blast+
  show "s \<le> s'"
    by (rule calculateRetrievalScore_mono_general[OF assms s' _ disjI2[OF mono]])
      (use h in \<open>auto simp: or_else_def\<close>)
next
  assume h: "importance m \<le> i' \<and>
     calculateRetrievalScore Math_exp kw now (m\<lparr> importance := i' \<rparr>) q w = Some s'"
  then have s': "calculateRetrievalScore Math_exp kw now (m\<lparr> importance := i' \<rparr>) q w = Some s'"
    by blast
  show "s \<le> s'"
    by (rule calculateRetrievalScore_mono_general[OF assms s' _ disjI1])
      (use h in simp_all)
next
  assume h: "calculateKeywordOverlap kw (content m) q \<le> calculateKeywordOverlap kw c' q \<and>
     calculateRetrievalScore Math_exp kw now (m\<lparr> content := c' \<rparr>) q w = Some s'"
  then have s': "calculateRetrievalScore Math_exp kw now (m\<lparr> content := c' \<rparr>) q w = Some s'"
    by blast
  show "s \<le> s'"
    by (rule calculateRetrievalScore_mono_general[OF assms s' _ disjI1])
      (use h in simp_all)
qed

theorem calculateRetrievalScore_monotone_witness:
  "calculateRetrievalScore exp_nearest whole_text_keyword (730 * day) scored_memory
     ''Python'' example_weights = Some (1 / 4) \<and>
   calculateRetrievalScore exp_nearest whole_text_keyword (730 * day)
     (scored_memory\<lparr> createdAt := 730 * day \<rparr>) ''Python'' example_weights = Some (1 / 2) \<and>
   calculateRetrievalScore exp_nearest whole_text_keyword (730 * day)
     (scored_memory\<lparr> importance := 1 \<rparr>) ''Python'' example_weights = Some (1 / 2) \<and>
   calculateRetrievalScore exp_nearest whole_text_keyword (730 * day)
     (scored_memory\<lparr> content := ''Python'' \<rparr>) ''Python'' example_weights = Some (1 / 2) \<and>
   calculateRetrievalScore exp_nearest whole_text_keyword (730 * day)
     (scored_memory\<lparr> lastAccessedAt := Some (200 * day) \<rparr>) ''Python'' example_weights
     = Some (1 / 4) \<and>
   calculateRetrievalScore exp_nearest whole_text_keyword (730 * day)
     (scored_memory\<lparr> lastAccessedAt := Some (730 * day) \<rparr>) ''Python'' example_weights
     = Some (1 / 2) \<and>
   (1 / 4 :: real) \<le> 1 / 2"
proof -
  have w: "0 \<le> recencyWeight example_weights" "0 \<le> importanceWeight example_weights"
    "0 \<le> relevanceWeight example_weights"
    by (simp_all add: example_weights_def)
  have mono: "\<forall>a b u v. a \<le> b \<and> exp_nearest a = Some u \<and> exp_nearest b = Some v \<longrightarrow> u \<le> v"
    using exp_nearest_mono by blast
  have ov: "calculateKeywordOverlap whole_text_keyword (content scored_memory) ''Python''
      \<le> calculateKeywordOverlap whole_text_keyword ''Python'' ''Python''"
    by (simp add: overlap_other overlap_same scored_memory_def)
  have m: "lastAccessedAt scored_memory = None" "createdAt scored_memory \<le> 730 * day"
    "importance scored_memory \<le> 1"
    by (simp_all add: scored_memory_def day_def)
  have a: "lastAccessedAt (scored_memory\<lparr> lastAccessedAt := Some (200 * day) \<rparr>) = Some (200 * day)"
    "0 < 200 * day" "200 * day \<le> 730 * day"
    by (simp_all add: day_def)
  note thm1 = calculateRetrievalScore_monotone[OF w score_old, where t' = "730 * day"
      and s' = "1 / 2" and i' = 1 and c' = "''Python''" and t = 0]
  note thm2 = calculateRetrievalScore_monotone[OF w score_accessed_old, where t' = "730 * day"
      and s' = "1 / 2" and i' = 1 and c' = "''Python''" and t = "200 * day"]
  from thm1 mono ov m score_fresh score_important score_relevant
  have le1: "(1 / 4 :: real) \<le> 1 / 2" by blast
  from thm2 mono a score_accessed_now
  have le2: "(1 / 4 :: real) \<le> 1 / 2" by simp
  from le1 le2 score_old score_fresh score_important score_relevant score_accessed_old
    score_accessed_now
  show ?thesis by blast
qed

text \<open>
  C5 as stated fails: the score does not always increase.  Two years after day 0, with
  the weights a quarter, a half and a quarter, the memory created on day 100 and the
  same memory created on day 101 both score 0.25: the recency term is less than half
  an ulp of the importance term 0.25, and their sum is rounded to 0.25.  And
  with the importance weight 0 the score of a memory is the same, 0.5 on the day of its
  creation, whether its importance is 0.5 or 1.
\<close>

theorem calculateRetrievalScore_tie_counterexample:
  "calculateRetrievalScore exp_nearest whole_text_keyword (730 * day) scored_memory ''Python''
     example_weights = Some (1 / 4) \<and>
   calculateRetrievalScore exp_nearest whole_text_keyword (730 * day)
     (scored_memory\<lparr> createdAt := 101 * day \<rparr>) ''Python'' example_weights = Some (1 / 4) \<and>
   lastAccessedAt scored_memory = None \<and> createdAt scored_memory = 100 * day \<and>
   0 < recencyWeight example_weights \<and>
   calculateRetrievalScore exp_nearest whole_text_keyword (100 * day) scored_memory ''Python''
     zero_importance_weights = Some (1 / 2) \<and>
   calculateRetrievalScore exp_nearest whole_text_keyword (100 * day)
     (scored_memory\<lparr> importance := 1 \<rparr>) ''Python'' zero_importance_weights = Some (1 / 2) \<and>
   importance scored_memory = 1 / 2"
  using score_old score_old_later score_zero_weight[of 1] score_zero_weight[of "1 / 2"]
  by (simp add: scored_memory_def example_weights_def)

section \<open>Properties of the surprise engine\<close>

text \<open>The bound on the iterations of a star never cuts a match short: more changes nothing.\<close>

lemma star_run_fuel:
  "length (snd st) \<le> n \<Longrightarrow> star_run n f st = star_run (length (snd st)) f st"
proof (induction n arbitrary: st rule: less_induct)
  case (less n)
  show ?case
  proof (cases n)
    case 0
    with less.prems show ?thesis by simp
  next
    case (Suc k)
    note n = Suc
    show ?thesis
    proof (cases "length (snd st)")
      case 0
      then have "filter (\<lambda>st'. length (snd st') < length (snd st)) (f st) = []"
        by (simp add: filter_empty_conv)
      with 0 n show ?thesis by simp
    next
      case (Suc m)
      with less.prems n have mk: "m \<le> k" by simp
      have eq: "map (star_run k f) (filter (\<lambda>st'. length (snd st') < length (snd st)) (f st)) =
            map (star_run m f) (filter (\<lambda>st'. length (snd st') < length (snd st)) (f st))"
      proof (rule map_cong[OF refl])
        fix st'
        assume "st' \<in> set (filter (\<lambda>st'. length (snd st') < length (snd st)) (f st))"
        then have len: "length (snd st') \<le> m" using Suc by simp
        have "star_run k f st' = star_run (length (snd st')) f st'"
          using less.IH[of k st'] len mk n by simp
        moreover have "star_run m f st' = star_run (length (snd st')) f st'"
          using less.IH[of m st'] len mk n by simp
        ultimately show "star_run k f st' = star_run m f st'" by simp
      qed
      have "star_run n f st =
          concat (map (star_run k f) (filter (\<lambda>st'. length (snd st') < length (snd st)) (f st))) @ [st]"
        using n by simp
      also have "\<dots> =
          concat (map (star_run m f) (filter (\<lambda>st'. length (snd st') < length (snd st)) (f st))) @ [st]"
        by (simp only: eq)
      also have "\<dots> = star_run (Suc m) f st"
        by simp
      finally show ?thesis using Suc by simp
    qed
  qed
qed

text \<open>The clamp of the \<open>try\<close> block and its exit through \<open>catch\<close>.\<close>

lemma calculateSurprise_try_range:
  assumes "calculateSurprise_try toLowerCase newMemory existingMemories context = Some v"
  shows "0 \<le> v \<and> v \<le> 1"
proof -
  from assms obtain s :: real where "v = min 1.0 (max 0.0 s)"
    unfolding calculateSurprise_try_def Let_def
    by (auto split: option.splits)
  then show ?thesis by simp
qed

lemma calculateSurprise_try_no_content:
  assumes "sm_content newMemory = None"
  shows "calculateSurprise_try toLowerCase newMemory existingMemories context = None"
  using assms unfolding calculateSurprise_try_def
  by (simp split: option.splits)

text \<open>
  C3.  For every candidate, every list of existing memories, every context and every
  \<open>toLowerCase\<close>, \<open>calculateSurprise\<close> returns a value between 0 and 1.  When the body of
  its \<open>try\<close> block raises (as it does when the candidate has no content), it returns the
  default 0.5.  Strings are lists of arbitrary code units, so the statement covers the
  empty string, text of any length and text outside ASCII; the model's functions are
  total.
\<close>

theorem calculateSurprise_range:
  "0 \<le> calculateSurprise toLowerCase newMemory existingMemories context \<and>
   calculateSurprise toLowerCase newMemory existingMemories context \<le> 1 \<and>
   (calculateSurprise_try toLowerCase newMemory existingMemories context = None \<longrightarrow>
      calculateSurprise toLowerCase newMemory existingMemories context = 0.5) \<and>
   (sm_content newMemory = None \<longrightarrow>
      calculateSurprise toLowerCase newMemory existingMemories context = 0.5)"
proof (cases "calculateSurprise_try toLowerCase newMemory existingMemories context")
  case None
  then have "calculateSurprise toLowerCase newMemory existingMemories context = 0.5"
    by (simp add: calculateSurprise_def)
  then show ?thesis by simp
next
  case (Some v)
  then have eq: "calculateSurprise toLowerCase newMemory existingMemories context = v"
    by (simp add: calculateSurprise_def)
  from calculateSurprise_try_range[OF Some] have "0 \<le> v \<and> v \<le> 1" .
  moreover have "sm_content newMemory \<noteq> None"
    using Some calculateSurprise_try_no_content[of newMemory toLowerCase existingMemories "context"]
    by auto
  ultimately show ?thesis using Some eq by auto
qed

lemma empty_content_score:
  "calculateSurprise ascii_toLowerCase empty_content (Some []) None = 3 / 10"
  by code_simp

lemma emoji_content_score:
  "calculateSurprise ascii_toLowerCase emoji_content (Some []) None = 129 / 400"
  by code_simp

lemma no_content_try:
  "calculateSurprise_try ascii_toLowerCase no_content (Some scenario_existing) None = None"
  by (rule calculateSurprise_try_no_content) (simp add: no_content_def)

theorem calculateSurprise_range_witness:
  "calculateSurprise_try ascii_toLowerCase no_content (Some scenario_existing) None = None \<and>
   calculateSurprise ascii_toLowerCase no_content (Some scenario_existing) None = 0.5 \<and>
   calculateSurprise ascii_toLowerCase empty_content (Some []) None = 3 / 10 \<and>
   0 \<le> calculateSurprise ascii_toLowerCase empty_content (Some []) None \<and>
   calculateSurprise ascii_toLowerCase empty_content (Some []) None \<le> 1 \<and>
   calculateSurprise ascii_toLowerCase emoji_content (Some []) None = 129 / 400"
  using calculateSurprise_range[of ascii_toLowerCase no_content "Some scenario_existing" None]
    calculateSurprise_range[of ascii_toLowerCase empty_content "Some []" None]
    no_content_try empty_content_score emoji_content_score
  by simp

text \<open>
  The score of the scenario: novelty 0.38, contradiction 0.7, specificity 0.45, emphasis 0
  and context switch 0.4 give 0.4815.
\<close>

lemma scenario_score:
  "calculateSurprise ascii_toLowerCase scenario_new (Some scenario_existing) (Some scenario_context)
   = 963 / 2000"
  by code_simp

text \<open>
  C4.  For the candidate "User prefers TypeScript over JavaScript", the single existing
  memory "User prefers JavaScript for all projects" and the user content "Actually, I
  prefer TypeScript", \<open>calculateSurprise\<close> (later revision) returns more than 0.4.
\<close>

theorem scenario_surprise_above_threshold:
  "0.4 < calculateSurprise ascii_toLowerCase scenario_new (Some scenario_existing)
           (Some scenario_context)"
  unfolding scenario_score by simp


end
